theory Spec2Isabelle
  imports Complex_Main
begin

section \<open>JavaScript values used by the chat store\<close>

text \<open>
  The store of \<^verbatim>\<open>src/app/store/app.ts\<close> is embedded function by function.
  A JavaScript \<^verbatim>\<open>number\<close> that reaches the config validators may be \<^verbatim>\<open>NaN\<close> or
  infinite, so the validators work on the type \<open>number\<close> below; \<^verbatim>\<open>Math.min\<close>,
  \<^verbatim>\<open>Math.max\<close> and the comparisons only select one of their arguments, so the reals
  stand for the doubles without rounding (\<^verbatim>\<open>-0\<close> and \<^verbatim>\<open>0\<close>, which \<^verbatim>\<open>===\<close>
  identifies, are one value here). Numbers that index arrays (the current session index,
  \<^verbatim>\<open>lastSummarizeIndex\<close>, \<^verbatim>\<open>historyMessageCount\<close>, the arguments of
  \<^verbatim>\<open>removeSession\<close>, \<^verbatim>\<open>moveSession\<close> and \<^verbatim>\<open>updateMessage\<close>) are integers.
\<close>

datatype number = NaN | NegInfinity | Finite real | PosInfinity

datatype jsvalue =
    JUndefined
  | JNull
  | JBoolean bool
  | JNumber number
  | JString string

fun num_le :: "number \<Rightarrow> number \<Rightarrow> bool" where
  "num_le NaN _ = False"
| "num_le _ NaN = False"
| "num_le NegInfinity _ = True"
| "num_le _ PosInfinity = True"
| "num_le (Finite a) (Finite b) = (a \<le> b)"
| "num_le _ _ = False"

text \<open>\<^verbatim>\<open>a > b\<close> on numbers: false as soon as one side is \<^verbatim>\<open>NaN\<close>.\<close>

fun num_gt :: "number \<Rightarrow> number \<Rightarrow> bool" where
  "num_gt NaN _ = False"
| "num_gt _ NaN = False"
| "num_gt a b = (\<not> num_le a b)"

text \<open>\<^verbatim>\<open>Math.max\<close> and \<^verbatim>\<open>Math.min\<close> of two numbers: \<^verbatim>\<open>NaN\<close> if either is.\<close>

fun Math_max :: "number \<Rightarrow> number \<Rightarrow> number" where
  "Math_max NaN _ = NaN"
| "Math_max _ NaN = NaN"
| "Math_max a b = (if num_le a b then b else a)"

fun Math_min :: "number \<Rightarrow> number \<Rightarrow> number" where
  "Math_min NaN _ = NaN"
| "Math_min _ NaN = NaN"
| "Math_min a b = (if num_le a b then a else b)"

subsection \<open>Arrays\<close>

text \<open>
  An array is a list. \<open>relative_index\<close> is the clamping that \<^verbatim>\<open>slice\<close> and
  \<^verbatim>\<open>splice\<close> apply to a start or end argument: a negative one counts from the end,
  and the result lies in \<open>[0, len]\<close>.
\<close>

definition relative_index :: "int \<Rightarrow> nat \<Rightarrow> nat" where
  "relative_index i len =
     (if i < 0 then nat (max (int len + i) 0) else nat (min i (int len)))"

text \<open>\<^verbatim>\<open>xs.slice(start)\<close>\<close>

definition slice_from :: "'a list \<Rightarrow> int \<Rightarrow> 'a list" where
  "slice_from xs start = drop (relative_index start (length xs)) xs"

text \<open>\<^verbatim>\<open>xs.slice(start, end)\<close>\<close>

definition slice :: "'a list \<Rightarrow> int \<Rightarrow> int \<Rightarrow> 'a list" where
  "slice xs start end =
     (let k = relative_index start (length xs);
          final = relative_index end (length xs)
      in take (final - k) (drop k xs))"

text \<open>
  \<^verbatim>\<open>xs.splice(start, deleteCount, ...items)\<close>: the array after the call (the removed
  elements, which the store never reads, are not returned).
\<close>

definition array_splice :: "'a list \<Rightarrow> int \<Rightarrow> int \<Rightarrow> 'a list \<Rightarrow> 'a list" where
  "array_splice xs start deleteCount items =
     (let len = length xs;
          actualStart = relative_index start len;
          actualDeleteCount = nat (min (max deleteCount 0) (int len - int actualStart))
      in take actualStart xs @ items @ drop (actualStart + actualDeleteCount) xs)"

text \<open>\<^verbatim>\<open>xs[i]\<close>: \<^verbatim>\<open>undefined\<close> (here \<open>None\<close>) outside \<open>[0, length)\<close>.\<close>

definition index :: "'a list \<Rightarrow> int \<Rightarrow> 'a option" where
  "index xs i = (if 0 \<le> i \<and> i < int (length xs) then Some (xs ! nat i) else None)"

text \<open>\<^verbatim>\<open>xs.at(i)\<close>: a negative index counts from the end.\<close>

definition array_at :: "'a list \<Rightarrow> int \<Rightarrow> 'a option" where
  "array_at xs i =
     (let k = (if 0 \<le> i then i else int (length xs) + i)
      in if k < 0 \<or> int (length xs) \<le> k then None else Some (xs ! nat k))"

section \<open>Config validators\<close>

record ModelEntry =
  name :: string
  available :: bool

definition ENABLE_GPT4 :: bool where
  "ENABLE_GPT4 = True"

definition ALL_MODELS :: "ModelEntry list" where
  "ALL_MODELS =
     [\<lparr>name = ''gpt-4'', available = ENABLE_GPT4\<rparr>,
      \<lparr>name = ''gpt-4-0314'', available = ENABLE_GPT4\<rparr>,
      \<lparr>name = ''gpt-4-32k'', available = ENABLE_GPT4\<rparr>,
      \<lparr>name = ''gpt-4-32k-0314'', available = ENABLE_GPT4\<rparr>,
      \<lparr>name = ''gpt-3.5-turbo'', available = True\<rparr>,
      \<lparr>name = ''gpt-3.5-turbo-0301'', available = True\<rparr>]"

text \<open>
  \<^verbatim>\<open>limitNumber\<close>: the argument is typed \<^verbatim>\<open>number\<close> but tested with \<^verbatim>\<open>typeof\<close>,
  so it is any value here.
\<close>

fun limitNumber :: "jsvalue \<Rightarrow> number \<Rightarrow> number \<Rightarrow> number \<Rightarrow> number" where
  "limitNumber (JNumber NaN) lo hi defaultValue = defaultValue"
| "limitNumber (JNumber x) lo hi defaultValue = Math_min hi (Math_max lo x)"
| "limitNumber _ lo hi defaultValue = defaultValue"

definition limitModel :: "string \<Rightarrow> string" where
  "limitModel n =
     (if list_ex (\<lambda>m. name m = n \<and> available m) ALL_MODELS then n
      else name (ALL_MODELS ! 4))"

definition ModalConfigValidator_model :: "string \<Rightarrow> string" where
  "ModalConfigValidator_model x = limitModel x"

definition ModalConfigValidator_max_tokens :: "jsvalue \<Rightarrow> number" where
  "ModalConfigValidator_max_tokens x = limitNumber x (Finite 0) (Finite 32000) (Finite 2000)"

definition ModalConfigValidator_presence_penalty :: "jsvalue \<Rightarrow> number" where
  "ModalConfigValidator_presence_penalty x = limitNumber x (Finite (-2)) (Finite 2) (Finite 0)"

definition ModalConfigValidator_temperature :: "jsvalue \<Rightarrow> number" where
  "ModalConfigValidator_temperature x = limitNumber x (Finite 0) (Finite 2) (Finite 1)"

text \<open>The names of the models a request may use: the entries flagged available.\<close>

definition available_models :: "string set" where
  "available_models = set (map name (filter available ALL_MODELS))"

text \<open>\<open>is_number v\<close>: \<^verbatim>\<open>typeof v === "number"\<close>.\<close>

fun is_number :: "jsvalue \<Rightarrow> bool" where
  "is_number (JNumber _) = True"
| "is_number _ = False"

text \<open>A validator's result lies in the closed interval from \<open>lo\<close> to \<open>hi\<close>.\<close>

definition in_interval :: "real \<Rightarrow> real \<Rightarrow> number \<Rightarrow> bool" where
  "in_interval lo hi v = (case v of Finite r \<Rightarrow> lo \<le> r \<and> r \<le> hi | _ \<Rightarrow> False)"

section \<open>Data model\<close>

text \<open>
  Objects that the code mutates through a retained reference live in a store: a session
  and a message are each an address (\<open>ref\<close>) into \<open>sessionObj\<close> and \<open>messageObj\<close>.
  The streaming callbacks of \<^verbatim>\<open>onUserInput\<close> write to the two message objects they
  closed over, and the callback of \<^verbatim>\<open>summarizeSession\<close> to the session object it closed
  over, whether or not the store's arrays still hold them. Arrays are lists inside the
  records: no closure keeps an array. The pinned \<^verbatim>\<open>context\<close> of a session is a list of
  message values, since nothing in this file writes to a context message.
\<close>

type_synonym ref = nat

datatype role = System | User | Assistant

record Message =
  role :: role
  content :: string
  date :: string
  streaming :: "bool option"
  isError :: "bool option"
  message_id :: "int option"

datatype SubmitKey = Enter | CtrlEnter | ShiftEnter | AltEnter | MetaEnter

datatype Theme = Auto | Dark | Light

record ModelConfig =
  model :: string
  temperature :: number
  max_tokens :: number
  presence_penalty :: number

record ChatConfig =
  historyMessageCount :: int
  compressMessageLengthThreshold :: int
  sendBotMessages :: bool
  submitKey :: SubmitKey
  avatar :: string
  fontSize :: int
  theme :: Theme
  tightBorder :: bool
  sendPreviewBubble :: bool
  disablePromptHint :: bool
  modelConfig :: ModelConfig

definition DEFAULT_CONFIG :: ChatConfig where
  "DEFAULT_CONFIG =
     \<lparr>historyMessageCount = 4,
      compressMessageLengthThreshold = 1000,
      sendBotMessages = True,
      submitKey = CtrlEnter,
      avatar = ''1f603'',
      fontSize = 14,
      theme = Auto,
      tightBorder = False,
      sendPreviewBubble = False,
      disablePromptHint = False,
      modelConfig =
        \<lparr>model = ''gpt-3.5-turbo'',
         temperature = Finite 0.7,
         max_tokens = Finite 4000,
         presence_penalty = Finite 0\<rparr>\<rparr>"

record ChatStat =
  tokenCount :: int
  wordCount :: int
  charCount :: int

record ChatSession =
  session_id :: int
  topic :: string
  sendMemory :: bool
  memoryPrompt :: string
  session_context :: "Message list"
  messages :: "ref list"
  stat :: ChatStat
  lastUpdate :: string
  lastSummarizeIndex :: int

text \<open>
  What the file imports or reads from its surroundings: the localised strings of
  \<^verbatim>\<open>../locales\<close>, \<^verbatim>\<open>trimTopic\<close> of \<^verbatim>\<open>../utils\<close>, the environment variable
  \<^verbatim>\<open>NEXT_PUBLIC_SYSTEM_PROMPT\<close>, and the literal block of example exchanges of
  \<^verbatim>\<open>getMessagesWithMemory\<close>, whose thirty-odd texts no property below reads.
\<close>

record Env =
  DefaultTopic :: string
  Unauthorized :: string
  StoreError :: string
  PromptHistory :: "string \<Rightarrow> string"
  PromptTopic :: string
  PromptSummarize :: string
  trimTopic :: "string \<Rightarrow> string"
  SYSTEM_PROMPT :: "string option"
  exampleMessages :: "Message list"

text \<open>The clock: \<^verbatim>\<open>Date.now()\<close> and \<^verbatim>\<open>new Date().toLocaleString()\<close> at the call.\<close>

record Clock =
  now :: int
  localeString :: string

text \<open>
  Modelled from the spec: \<^verbatim>\<open>ControllerPool\<close> of \<^verbatim>\<open>../requests\<close>, the cancellation
  registry. It holds at most one handle for each pair of a session index and a message
  key; \<open>addController\<close> stores a handle, overwriting an earlier one for the same key,
  and \<open>remove\<close> erases the association, doing nothing when there is none.
\<close>

type_synonym controller = nat

type_synonym ControllerPool = "int \<times> int \<rightharpoonup> controller"

definition ControllerPool_addController ::
  "int \<Rightarrow> int \<Rightarrow> controller \<Rightarrow> ControllerPool \<Rightarrow> ControllerPool" where
  "ControllerPool_addController sessionIndex messageKey c pool =
     pool((sessionIndex, messageKey) \<mapsto> c)"

definition ControllerPool_remove :: "int \<Rightarrow> int \<Rightarrow> ControllerPool \<Rightarrow> ControllerPool" where
  "ControllerPool_remove sessionIndex messageKey pool =
     pool((sessionIndex, messageKey) := None)"

text \<open>
  The state: the three fields of the store, the objects, the next unused address and the
  registry. A slot of \<open>sessions\<close> is \<open>None\<close> when the array holds \<^verbatim>\<open>undefined\<close> there,
  which \<^verbatim>\<open>moveSession\<close> can write.
\<close>

record State =
  config :: ChatConfig
  sessions :: "ref option list"
  currentSessionIndex :: int
  sessionObj :: "ref \<Rightarrow> ChatSession"
  messageObj :: "ref \<Rightarrow> Message"
  nextRef :: ref
  controllers :: ControllerPool

datatype error = TypeError

text \<open>\<^verbatim>\<open>sessions[i]\<close>: the session object there, or \<^verbatim>\<open>undefined\<close>.\<close>

definition session_at :: "ref option list \<Rightarrow> int \<Rightarrow> ref option" where
  "session_at xs i = (case index xs i of None \<Rightarrow> None | Some slot \<Rightarrow> slot)"

text \<open>A value is falsy when absent or \<^verbatim>\<open>false\<close>: \<^verbatim>\<open>!msg.isError\<close> is \<open>\<not> truthy\<close>.\<close>

fun truthy :: "bool option \<Rightarrow> bool" where
  "truthy (Some b) = b"
| "truthy None = False"

section \<open>The store\<close>

text \<open>
  \<^verbatim>\<open>createMessage(override)\<close>: the defaults, then the fields the caller overrides.
\<close>

definition createMessage :: "Clock \<Rightarrow> (Message \<Rightarrow> Message) \<Rightarrow> Message" where
  "createMessage clk override =
     override
       \<lparr>role = User, content = '''', date = localeString clk,
        streaming = None, isError = None, message_id = Some (now clk)\<rparr>"

definition createEmptySession :: "Env \<Rightarrow> Clock \<Rightarrow> ChatSession" where
  "createEmptySession env clk =
     \<lparr>session_id = now clk,
      topic = DefaultTopic env,
      sendMemory = True,
      memoryPrompt = '''',
      session_context = [],
      messages = [],
      stat = \<lparr>tokenCount = 0, wordCount = 0, charCount = 0\<rparr>,
      lastUpdate = localeString clk,
      lastSummarizeIndex = 0\<rparr>"

text \<open>A new session object, and a new message object, at the next unused address.\<close>

definition new_session :: "ChatSession \<Rightarrow> State \<Rightarrow> ref \<times> State" where
  "new_session s st =
     (nextRef st,
      st\<lparr>sessionObj := (sessionObj st)(nextRef st := s), nextRef := Suc (nextRef st)\<rparr>)"

definition new_message :: "Message \<Rightarrow> State \<Rightarrow> ref \<times> State" where
  "new_message m st =
     (nextRef st,
      st\<lparr>messageObj := (messageObj st)(nextRef st := m), nextRef := Suc (nextRef st)\<rparr>)"

text \<open>\<^verbatim>\<open>msgs.reduce((pre, cur) => pre + cur.content.length, 0)\<close>\<close>

definition countMessages :: "Message list \<Rightarrow> int" where
  "countMessages msgs = foldl (\<lambda>pre cur. pre + int (length (content cur))) 0 msgs"

definition clearSessions :: "Env \<Rightarrow> Clock \<Rightarrow> State \<Rightarrow> State" where
  "clearSessions env clk st =
     (let (r, st1) = new_session (createEmptySession env clk) st
      in st1\<lparr>sessions := [Some r], currentSessionIndex := 0\<rparr>)"

definition resetConfig :: "State \<Rightarrow> State" where
  "resetConfig st = st\<lparr>config := DEFAULT_CONFIG\<rparr>"

definition getConfig :: "State \<Rightarrow> ChatConfig" where
  "getConfig st = config st"

definition updateConfig :: "(ChatConfig \<Rightarrow> ChatConfig) \<Rightarrow> State \<Rightarrow> State" where
  "updateConfig updater st = st\<lparr>config := updater (config st)\<rparr>"

definition selectSession :: "int \<Rightarrow> State \<Rightarrow> State" where
  "selectSession i st = st\<lparr>currentSessionIndex := i\<rparr>"

definition removeSession :: "Env \<Rightarrow> Clock \<Rightarrow> int \<Rightarrow> State \<Rightarrow> State" where
  "removeSession env clk i st =
     (let nextIndex = currentSessionIndex st;
          ss = sessions st
      in if length ss = 1 then
           (let (r, st1) = new_session (createEmptySession env clk) st
            in st1\<lparr>currentSessionIndex := 0, sessions := [Some r]\<rparr>)
         else
           (let ss1 = array_splice ss i 1 [];
                nextIndex1 = (if nextIndex = i then nextIndex - 1 else nextIndex)
            in st\<lparr>currentSessionIndex := nextIndex1, sessions := ss1\<rparr>))"

definition moveSession :: "int \<Rightarrow> int \<Rightarrow> State \<Rightarrow> State" where
  "moveSession from to st =
     (let oldIndex = currentSessionIndex st;
          newSessions = sessions st;
          session = session_at newSessions from;
          newSessions1 = array_splice newSessions from 1 [];
          newSessions2 = array_splice newSessions1 to 0 [session];
          newIndex = (if oldIndex = from then to else oldIndex);
          newIndex1 =
            (if oldIndex > from \<and> oldIndex \<le> to then newIndex - 1
             else if oldIndex < from \<and> oldIndex \<ge> to then newIndex + 1
             else newIndex)
      in st\<lparr>currentSessionIndex := newIndex1, sessions := newSessions2\<rparr>)"

definition newSession :: "Env \<Rightarrow> Clock \<Rightarrow> State \<Rightarrow> State" where
  "newSession env clk st =
     (let (r, st1) = new_session (createEmptySession env clk) st
      in st1\<lparr>currentSessionIndex := 0, sessions := [Some r] @ sessions st\<rparr>)"

text \<open>
  \<^verbatim>\<open>currentSession()\<close>: clamps an index out of range, stores the clamped index, and
  returns the session there (\<^verbatim>\<open>undefined\<close> when there is none).
\<close>

definition currentSession :: "State \<Rightarrow> ref option \<times> State" where
  "currentSession st =
     (let i = currentSessionIndex st;
          ss = sessions st
      in if i < 0 \<or> i \<ge> int (length ss) then
           (let i1 = min (int (length ss) - 1) (max 0 i)
            in (session_at ss i1, st\<lparr>currentSessionIndex := i1\<rparr>))
         else (session_at ss i, st))"

text \<open>
  \<^verbatim>\<open>deleteSession()\<close> removes the current session unless the screen is a mobile one and
  the user declines the confirmation, and shows a toast whose \<^verbatim>\<open>onClick\<close> (the undo) closes
  over the index, the deleted session and whether it was the only one. The toast is
  returned with the state; \<open>Revert_onClick\<close> is the undo, run on the state at the click.
\<close>

record Revert =
  revert_index :: int
  revert_deletedSession :: "ref option"
  revert_isLastSession :: bool

definition deleteSession ::
  "Env \<Rightarrow> Clock \<Rightarrow> bool \<Rightarrow> bool \<Rightarrow> State \<Rightarrow> State \<times> Revert" where
  "deleteSession env clk isMobileScreen confirm st =
     (let (deletedSession, st1) = currentSession st;
          i = currentSessionIndex st1;
          isLastSession = (length (sessions st1) = 1);
          st2 = (if \<not> isMobileScreen \<or> confirm then removeSession env clk i st1 else st1)
      in (st2, \<lparr>revert_index = i, revert_deletedSession = deletedSession,
                revert_isLastSession = isLastSession\<rparr>))"

definition Revert_onClick :: "Revert \<Rightarrow> State \<Rightarrow> State" where
  "Revert_onClick rv st =
     st\<lparr>sessions :=
          slice (sessions st) 0 (revert_index rv)
          @ [revert_deletedSession rv]
          @ slice_from (sessions st)
              (revert_index rv + (if revert_isLastSession rv then 1 else 0))\<rparr>"

text \<open>
  The session objects of the collection are allocated: their addresses lie below the next
  unused one, so a new object is none of them.
\<close>

definition sessions_allocated :: "State \<Rightarrow> bool" where
  "sessions_allocated st =
     list_all (\<lambda>slot. case slot of None \<Rightarrow> True | Some r \<Rightarrow> r < nextRef st) (sessions st)"

text \<open>
  \<^verbatim>\<open>updateCurrentSession(updater)\<close>. Every updater of this file reads or writes a field
  of its argument, so it is a function on the session object, and the call throws
  \<^verbatim>\<open>TypeError\<close>, before any change, when \<^verbatim>\<open>sessions[index]\<close> is \<^verbatim>\<open>undefined\<close>.
  A procedure that can throw returns the error, if any, with the state at that moment.
\<close>

definition updateCurrentSession ::
  "(ChatSession \<Rightarrow> ChatSession) \<Rightarrow> State \<Rightarrow> error option \<times> State" where
  "updateCurrentSession updater st =
     (case session_at (sessions st) (currentSessionIndex st) of
        None \<Rightarrow> (Some TypeError, st)
      | Some r \<Rightarrow> (None, st\<lparr>sessionObj := (sessionObj st)(r := updater (sessionObj st r))\<rparr>))"

definition onNewMessage :: "Clock \<Rightarrow> State \<Rightarrow> error option \<times> State" where
  "onNewMessage clk st = updateCurrentSession (\<lambda>s. s\<lparr>lastUpdate := localeString clk\<rparr>) st"

definition resetSession :: "State \<Rightarrow> error option \<times> State" where
  "resetSession st = updateCurrentSession (\<lambda>s. s\<lparr>messages := [], memoryPrompt := ''''\<rparr>) st"

definition updateStat :: "Message \<Rightarrow> State \<Rightarrow> error option \<times> State" where
  "updateStat message st =
     updateCurrentSession
       (\<lambda>s. s\<lparr>stat := (stat s)\<lparr>charCount := charCount (stat s) + int (length (content message))\<rparr>\<rparr>)
       st"

text \<open>
  \<^verbatim>\<open>getMemoryPrompt()\<close>: a system message around the current session's memory prompt;
  reading \<^verbatim>\<open>session.memoryPrompt\<close> throws when there is no current session.
\<close>

definition getMemoryPrompt :: "Env \<Rightarrow> State \<Rightarrow> (error + Message) \<times> State" where
  "getMemoryPrompt env st =
     (let (session, st1) = currentSession st
      in case session of
           None \<Rightarrow> (Inl TypeError, st1)
         | Some r \<Rightarrow>
             (Inr \<lparr>role = System,
                   content = PromptHistory env (memoryPrompt (sessionObj st1 r)),
                   date = '''', streaming = None, isError = None, message_id = None\<rparr>,
              st1))"

text \<open>
  The trailing window of \<^verbatim>\<open>getMessagesWithMemory\<close>:
  \<^verbatim>\<open>messages.slice(Math.max(0, n - config.historyMessageCount))\<close>, where \<open>msgs\<close> is
  the session's messages without the ones flagged \<^verbatim>\<open>isError\<close>.
\<close>

definition historyWindow :: "ChatConfig \<Rightarrow> Message list \<Rightarrow> Message list" where
  "historyWindow cfg msgs =
     (let n = int (length msgs)
      in slice_from msgs (max 0 (n - historyMessageCount cfg)))"

text \<open>The session's messages that are not flagged: \<^verbatim>\<open>filter((msg) => !msg.isError)\<close>.\<close>

definition nonErrorMessages :: "State \<Rightarrow> ChatSession \<Rightarrow> Message list" where
  "nonErrorMessages st s = filter (\<lambda>msg. \<not> truthy (isError msg)) (map (messageObj st) (messages s))"

text \<open>
  \<^verbatim>\<open>getMessagesWithMemory()\<close>: the pinned context, the memory prompt when the session
  sends one and has one, the example block, the trailing window, and in front of all the
  system prompt of the environment when there is one. The list holds the messages as they
  are at the call.
\<close>

definition getMessagesWithMemory :: "Env \<Rightarrow> State \<Rightarrow> (error + Message list) \<times> State" where
  "getMessagesWithMemory env st =
     (let (session, st1) = currentSession st
      in case session of
           None \<Rightarrow> (Inl TypeError, st1)
         | Some r \<Rightarrow>
             (let s = sessionObj st1 r;
                  cfg = config st1;
                  msgs = nonErrorMessages st1 s;
                  ctx = session_context s;
                  (ctx1, st2) =
                    (if sendMemory s \<and> memoryPrompt s \<noteq> '''' \<and> length (memoryPrompt s) > 0 then
                       (case getMemoryPrompt env st1 of
                          (Inl e, st') \<Rightarrow> (Inl e, st')
                        | (Inr memoryPromptMsg, st') \<Rightarrow> (Inr (ctx @ [memoryPromptMsg]), st'))
                     else (Inr ctx, st1))
              in case ctx1 of
                   Inl e \<Rightarrow> (Inl e, st2)
                 | Inr ctx2 \<Rightarrow>
                     (let recentMessages = ctx2 @ exampleMessages env @ historyWindow cfg msgs
                      in case SYSTEM_PROMPT env of
                           None \<Rightarrow> (Inr recentMessages, st2)
                         | Some p \<Rightarrow>
                             (Inr (\<lparr>role = System, content = p, date = '''', streaming = None,
                                    isError = None, message_id = None\<rparr> # recentMessages),
                              st2))))"

text \<open>
  \<^verbatim>\<open>updateMessage(sessionIndex, messageIndex, updater)\<close>. \<open>updateMessage_target\<close> is
  the argument the updater receives, \<^verbatim>\<open>sessions.at(sessionIndex)?.messages?.at(messageIndex)\<close>.
  The updater is any effect on the message objects, given that argument, and it may throw;
  what it wrote before a throw stays.
\<close>

definition updateMessage_target :: "int \<Rightarrow> int \<Rightarrow> State \<Rightarrow> ref option" where
  "updateMessage_target sessionIndex messageIndex st =
     (let session = (case array_at (sessions st) sessionIndex of None \<Rightarrow> None | Some slot \<Rightarrow> slot)
      in case session of
           None \<Rightarrow> None
         | Some r \<Rightarrow> array_at (messages (sessionObj st r)) messageIndex)"

type_synonym message_updater =
  "ref option \<Rightarrow> (ref \<Rightarrow> Message) \<Rightarrow> error option \<times> (ref \<Rightarrow> Message)"

definition updateMessage :: "int \<Rightarrow> int \<Rightarrow> message_updater \<Rightarrow> State \<Rightarrow> error option \<times> State" where
  "updateMessage sessionIndex messageIndex updater st =
     (case updater (updateMessage_target sessionIndex messageIndex st) (messageObj st) of
        (e, h) \<Rightarrow> (e, st\<lparr>messageObj := h\<rparr>))"

text \<open>
  \<^verbatim>\<open>summarizeSession()\<close> changes nothing itself; it may issue a topic request and a
  compression request, whose callbacks write later. The result lists what was issued.
  The test \<^verbatim>\<open>historyMsgLength > get().config?.modelConfig?.max_tokens ?? 4000\<close> parses as
  \<^verbatim>\<open>(historyMsgLength > max_tokens) ?? 4000\<close>, a comparison that is never nullish, so
  it is the comparison alone.
\<close>

record CompressRequest =
  compress_messages :: "Message list"
  compress_historyMsgLength :: int
  compress_session :: ref
  compress_lastSummarizeIndex :: int

record Summarize =
  topicRequest :: "(Message list \<times> string) option"
  compressRequest :: "CompressRequest option"

definition SUMMARIZE_MIN_LEN :: int where
  "SUMMARIZE_MIN_LEN = 50"

definition summarizeSession :: "Env \<Rightarrow> State \<Rightarrow> (error + Summarize) \<times> State" where
  "summarizeSession env st =
     (let (session, st1) = currentSession st
      in case session of
           None \<Rightarrow> (Inl TypeError, st1)
         | Some r \<Rightarrow>
             (let s = sessionObj st1 r;
                  all_msgs = map (messageObj st1) (messages s);
                  topicReq =
                    (if topic s = DefaultTopic env \<and> countMessages all_msgs \<ge> SUMMARIZE_MIN_LEN
                     then Some (all_msgs, PromptTopic env) else None);
                  cfg = config st1;
                  toBeSummarizedMsgs = slice_from all_msgs (lastSummarizeIndex s);
                  historyMsgLength = countMessages toBeSummarizedMsgs;
                  toBeSummarizedMsgs1 =
                    (if num_gt (Finite (of_int historyMsgLength)) (max_tokens (modelConfig cfg)) then
                       (let n = int (length toBeSummarizedMsgs)
                        in slice_from toBeSummarizedMsgs (max 0 (n - historyMessageCount cfg)))
                     else toBeSummarizedMsgs)
              in case getMemoryPrompt env st1 of
                   (Inl e, st2) \<Rightarrow> (Inl e, st2)
                 | (Inr memoryPromptMsg, st2) \<Rightarrow>
                     (let toBeSummarizedMsgs2 = memoryPromptMsg # toBeSummarizedMsgs1;
                          lastSummarizeIndex1 = int (length (messages s));
                          compressReq =
                            (if historyMsgLength > compressMessageLengthThreshold cfg then
                               Some \<lparr>compress_messages =
                                       toBeSummarizedMsgs2
                                       @ [\<lparr>role = System, content = PromptSummarize env, date = '''',
                                           streaming = None, isError = None, message_id = None\<rparr>],
                                     compress_historyMsgLength = historyMsgLength,
                                     compress_session = r,
                                     compress_lastSummarizeIndex = lastSummarizeIndex1\<rparr>
                             else None)
                      in (Inr \<lparr>topicRequest = topicReq, compressRequest = compressReq\<rparr>, st2))))"

text \<open>
  The callbacks of the compression request: each delivery overwrites the memory prompt of
  the session that was current at the request, and the last one stores the message count
  of that moment in \<^verbatim>\<open>lastSummarizeIndex\<close>; an error is only logged.
\<close>

definition compress_onMessage :: "CompressRequest \<Rightarrow> string \<Rightarrow> bool \<Rightarrow> State \<Rightarrow> State" where
  "compress_onMessage rq message done st =
     (let r = compress_session rq;
          s1 = (sessionObj st r)\<lparr>memoryPrompt := message\<rparr>;
          s2 = (if done then s1\<lparr>lastSummarizeIndex := compress_lastSummarizeIndex rq\<rparr> else s1)
      in st\<lparr>sessionObj := (sessionObj st)(r := s2)\<rparr>)"

definition compress_onError :: "CompressRequest \<Rightarrow> State \<Rightarrow> State" where
  "compress_onError rq st = st"

text \<open>The continuation of the topic request: \<^verbatim>\<open>res ? trimTopic(res) : DEFAULT_TOPIC\<close>.\<close>

definition topic_then :: "Env \<Rightarrow> string \<Rightarrow> State \<Rightarrow> error option \<times> State" where
  "topic_then env res st =
     updateCurrentSession
       (\<lambda>s. s\<lparr>topic := (if res \<noteq> '''' then trimTopic env res else DefaultTopic env)\<rparr>) st"

text \<open>
  \<^verbatim>\<open>onUserInput(content)\<close> creates the user message and the assistant message, builds the
  list to send, appends both messages to the current session and hands the request to
  \<^verbatim>\<open>requestChatStream\<close>. The request is returned: what is sent, and what the three
  callbacks closed over. The transport calls \<open>onMessage\<close>, \<open>onError\<close> and
  \<open>onController\<close> later, each on the state of that moment.
\<close>

record ChatRequest =
  req_messages :: "Message list"
  req_userMessage :: ref
  req_botMessage :: ref
  req_sessionIndex :: int
  req_messageIndex :: int
  req_filterBot :: bool
  req_modelConfig :: ModelConfig

definition onUserInput :: "Env \<Rightarrow> Clock \<Rightarrow> string \<Rightarrow> State \<Rightarrow> (error + ChatRequest) \<times> State" where
  "onUserInput env clk text st =
     (let (userMessage, st1) =
            new_message (createMessage clk (\<lambda>m. m\<lparr>role := User, content := text\<rparr>)) st;
          (botMessage, st2) =
            new_message (createMessage clk (\<lambda>m. m\<lparr>role := Assistant, streaming := Some True\<rparr>)) st1
      in case getMessagesWithMemory env st2 of
           (Inl e, st3) \<Rightarrow> (Inl e, st3)
         | (Inr recentMessages, st3) \<Rightarrow>
             (let sendMessages = recentMessages @ [messageObj st3 userMessage];
                  sessionIndex = currentSessionIndex st3
              in case currentSession st3 of
                   (None, st4) \<Rightarrow> (Inl TypeError, st4)
                 | (Some r, st4) \<Rightarrow>
                     (let messageIndex = int (length (messages (sessionObj st4 r))) + 1
                      in case updateCurrentSession
                                (\<lambda>s. s\<lparr>messages := messages s @ [userMessage, botMessage]\<rparr>) st4 of
                           (Some e, st5) \<Rightarrow> (Inl e, st5)
                         | (None, st5) \<Rightarrow>
                             (Inr \<lparr>req_messages = sendMessages,
                                   req_userMessage = userMessage,
                                   req_botMessage = botMessage,
                                   req_sessionIndex = sessionIndex,
                                   req_messageIndex = messageIndex,
                                   req_filterBot = (\<not> sendBotMessages (config st5)),
                                   req_modelConfig = modelConfig (config st5)\<rparr>,
                              st5))))"

text \<open>The registry key of a request: \<^verbatim>\<open>botMessage.id ?? messageIndex\<close>.\<close>

definition messageKey :: "ChatRequest \<Rightarrow> State \<Rightarrow> int" where
  "messageKey rq st =
     (case message_id (messageObj st (req_botMessage rq)) of
        Some i \<Rightarrow> i
      | None \<Rightarrow> req_messageIndex rq)"

text \<open>
  \<^verbatim>\<open>onMessage(content, done)\<close>. The last delivery writes the two fields, then calls
  \<^verbatim>\<open>onNewMessage\<close>, which throws when there is no session at the current index; the
  writes made before the throw stay.
\<close>

definition onMessage ::
  "Clock \<Rightarrow> ChatRequest \<Rightarrow> string \<Rightarrow> bool \<Rightarrow> State \<Rightarrow> error option \<times> State" where
  "onMessage clk rq text done st =
     (let b = req_botMessage rq
      in if done then
           (let st1 = st\<lparr>messageObj := (messageObj st)(b := (messageObj st b)\<lparr>streaming := Some False\<rparr>)\<rparr>;
                st2 = st1\<lparr>messageObj := (messageObj st1)(b := (messageObj st1 b)\<lparr>content := text\<rparr>)\<rparr>
            in case onNewMessage clk st2 of
                 (Some e, st3) \<Rightarrow> (Some e, st3)
               | (None, st3) \<Rightarrow>
                   (None,
                    st3\<lparr>controllers :=
                          ControllerPool_remove (req_sessionIndex rq) (messageKey rq st3)
                            (controllers st3)\<rparr>))
         else
           (None, st\<lparr>messageObj := (messageObj st)(b := (messageObj st b)\<lparr>content := text\<rparr>)\<rparr>))"

text \<open>
  \<^verbatim>\<open>onError(error, statusCode)\<close>; the status code is absent when the transport has
  none. The suffix starts with the two line feeds of \<^verbatim>\<open>"\n\n"\<close>.
\<close>

definition onError :: "Env \<Rightarrow> ChatRequest \<Rightarrow> int option \<Rightarrow> State \<Rightarrow> State" where
  "onError env rq statusCode st =
     (let b = req_botMessage rq;
          u = req_userMessage rq;
          st1 =
            (if statusCode = Some 401 then
               st\<lparr>messageObj := (messageObj st)(b := (messageObj st b)\<lparr>content := Unauthorized env\<rparr>)\<rparr>
             else
               st\<lparr>messageObj :=
                    (messageObj st)
                      (b := (messageObj st b)
                         \<lparr>content := content (messageObj st b) @ [CHR 0x0A, CHR 0x0A] @ StoreError env\<rparr>)\<rparr>);
          st2 = st1\<lparr>messageObj := (messageObj st1)(b := (messageObj st1 b)\<lparr>streaming := Some False\<rparr>)\<rparr>;
          st3 = st2\<lparr>messageObj := (messageObj st2)(u := (messageObj st2 u)\<lparr>isError := Some True\<rparr>)\<rparr>;
          st4 = st3\<lparr>messageObj := (messageObj st3)(b := (messageObj st3 b)\<lparr>isError := Some True\<rparr>)\<rparr>
      in st4\<lparr>controllers :=
               ControllerPool_remove (req_sessionIndex rq) (messageKey rq st4) (controllers st4)\<rparr>)"

definition onController :: "ChatRequest \<Rightarrow> controller \<Rightarrow> State \<Rightarrow> State" where
  "onController rq c st =
     st\<lparr>controllers :=
          ControllerPool_addController (req_sessionIndex rq) (messageKey rq st) c (controllers st)\<rparr>"

text \<open>
  What the transport delivers for one request, in order: partial texts, each the whole
  text so far, then one last text or an error. \<open>deliver\<close> runs the callback of one
  event and \<open>stream\<close> those of a sequence; a throw inside a callback does not undo its
  writes, so the state is kept.
\<close>

datatype stream_event = Partial string | Done string | Failed "int option"

fun deliver :: "Env \<Rightarrow> Clock \<Rightarrow> ChatRequest \<Rightarrow> stream_event \<Rightarrow> State \<Rightarrow> State" where
  "deliver env clk rq (Partial text) st = snd (onMessage clk rq text False st)"
| "deliver env clk rq (Done text) st = snd (onMessage clk rq text True st)"
| "deliver env clk rq (Failed statusCode) st = onError env rq statusCode st"

definition stream :: "Env \<Rightarrow> Clock \<Rightarrow> ChatRequest \<Rightarrow> stream_event list \<Rightarrow> State \<Rightarrow> State" where
  "stream env clk rq events st = foldl (\<lambda>s e. deliver env clk rq e s) st events"

section \<open>Sample values\<close>

text \<open>
  Concrete surroundings and states on which the theorems below are instantiated. The
  strings stand for the localised ones, which the store only copies.
\<close>

definition sample_env :: Env where
  "sample_env =
     \<lparr>DefaultTopic = ''New Conversation'',
      Unauthorized = ''Unauthorized access'',
      StoreError = ''Something went wrong'',
      PromptHistory = (\<lambda>c. ''Summary so far: '' @ c),
      PromptTopic = ''Give a short title'',
      PromptSummarize = ''Summarize our discussion'',
      trimTopic = (\<lambda>s. s),
      SYSTEM_PROMPT = None,
      exampleMessages = []\<rparr>"

definition sample_clock :: Clock where
  "sample_clock = \<lparr>now = 1700000000000, localeString = ''14/11/2023''\<rparr>"

definition sample_message :: "role \<Rightarrow> string \<Rightarrow> bool option \<Rightarrow> Message" where
  "sample_message r c e =
     \<lparr>role = r, content = c, date = ''14/11/2023'', streaming = None, isError = e,
      message_id = Some 1700000000000\<rparr>"

text \<open>
  Message objects 2 to 5: a question, an answer, and an exchange that failed (both
  flagged): a question of 600 characters and the 500 characters received before the error.
\<close>

definition failed_question :: string where
  "failed_question = replicate 600 (CHR ''q'')"

definition failed_answer :: string where
  "failed_answer = replicate 500 (CHR ''a'')"

definition sample_messages :: "ref \<Rightarrow> Message" where
  "sample_messages =
     (\<lambda>_. sample_message User '''' None)
       (2 := sample_message User ''hi'' None,
        3 := sample_message Assistant ''hello'' None,
        4 := sample_message User failed_question (Some True),
        5 := sample_message Assistant failed_answer (Some True))"

definition sample_session :: "ref list \<Rightarrow> int \<Rightarrow> ChatSession" where
  "sample_session ms k =
     (createEmptySession sample_env sample_clock)\<lparr>messages := ms, lastSummarizeIndex := k\<rparr>"

text \<open>One session, holding the four messages, nothing summarized yet.\<close>

definition one_session :: State where
  "one_session =
     \<lparr>config = DEFAULT_CONFIG,
      sessions = [Some 10],
      currentSessionIndex = 0,
      sessionObj = (\<lambda>_. sample_session [] 0)(10 := sample_session [2, 3, 4, 5] 0),
      messageObj = sample_messages,
      nextRef = 20,
      controllers = Map.empty\<rparr>"

text \<open>Three sessions, the second one current.\<close>

definition three_sessions :: State where
  "three_sessions =
     \<lparr>config = DEFAULT_CONFIG,
      sessions = [Some 10, Some 11, Some 12],
      currentSessionIndex = 1,
      sessionObj = (\<lambda>_. sample_session [] 0)(11 := sample_session [2, 3] 0),
      messageObj = sample_messages,
      nextRef = 20,
      controllers = Map.empty\<rparr>"

text \<open>The same with \<^verbatim>\<open>historyMessageCount = -1\<close>, which the config documents as "all".\<close>

definition unbounded_history :: State where
  "unbounded_history = one_session\<lparr>config := (config one_session)\<lparr>historyMessageCount := -1\<rparr>\<rparr>"

text \<open>The same session without the failed exchange.\<close>

definition without_failed_exchange :: State where
  "without_failed_exchange =
     one_session\<lparr>sessionObj := (sessionObj one_session)(10 := sample_session [2, 3] 0)\<rparr>"

text \<open>Whether \<open>summarizeSession\<close> issues the compression request.\<close>

definition summarizeTriggered :: "Env \<Rightarrow> State \<Rightarrow> bool" where
  "summarizeTriggered env st =
     (case fst (summarizeSession env st) of
        Inl e \<Rightarrow> False
      | Inr res \<Rightarrow> compressRequest res \<noteq> None)"

text \<open>The range the spec gives for \<^verbatim>\<open>lastSummarizeIndex\<close>.\<close>

definition summarizeIndexInRange :: "ChatSession \<Rightarrow> bool" where
  "summarizeIndexInRange s =
     (0 \<le> lastSummarizeIndex s \<and> lastSummarizeIndex s \<le> int (length (messages s)))"

text \<open>
  The compression request that \<open>summarizeSession\<close> issues in \<open>one_session\<close>, and
  the chat request that \<open>onUserInput\<close> issues for the text \<^verbatim>\<open>ask\<close> in
  \<open>one_session\<close>.
\<close>

definition sample_compress_request :: CompressRequest where
  "sample_compress_request =
     \<lparr>compress_messages =
        [\<lparr>role = System, content = ''Summary so far: '', date = '''', streaming = None,
          isError = None, message_id = None\<rparr>,
         sample_message User ''hi'' None,
         sample_message Assistant ''hello'' None,
         sample_message User failed_question (Some True),
         sample_message Assistant failed_answer (Some True),
         \<lparr>role = System, content = ''Summarize our discussion'', date = '''', streaming = None,
          isError = None, message_id = None\<rparr>],
      compress_historyMsgLength = 1107,
      compress_session = 10,
      compress_lastSummarizeIndex = 4\<rparr>"

text \<open>What \<open>summarizeSession\<close> issues in \<open>one_session\<close>: both requests.\<close>

definition sample_summarize :: Summarize where
  "sample_summarize =
     \<lparr>topicRequest =
        Some ([sample_message User ''hi'' None,
               sample_message Assistant ''hello'' None,
               sample_message User failed_question (Some True),
               sample_message Assistant failed_answer (Some True)],
              ''Give a short title''),
      compressRequest = Some sample_compress_request\<rparr>"

definition sample_request :: ChatRequest where
  "sample_request =
     \<lparr>req_messages =
        [sample_message User ''hi'' None,
         sample_message Assistant ''hello'' None,
         sample_message User ''ask'' None],
      req_userMessage = 20,
      req_botMessage = 21,
      req_sessionIndex = 0,
      req_messageIndex = 5,
      req_filterBot = False,
      req_modelConfig = modelConfig DEFAULT_CONFIG\<rparr>"

text \<open>
  Two updaters: \<^verbatim>\<open>(m) => { if (m) m.content = "edited" }\<close>, which does nothing without a
  message, and \<^verbatim>\<open>(m) => { m.content = "edited" }\<close>, which throws without one.
\<close>

definition edit_if_present :: message_updater where
  "edit_if_present target h =
     (case target of
        None \<Rightarrow> (None, h)
      | Some a \<Rightarrow> (None, h(a := (h a)\<lparr>content := ''edited''\<rparr>)))"

definition edit_unguarded :: message_updater where
  "edit_unguarded target h =
     (case target of
        None \<Rightarrow> (Some TypeError, h)
      | Some a \<Rightarrow> (None, h(a := (h a)\<lparr>content := ''edited''\<rparr>)))"

section \<open>Properties of the config validators\<close>

lemma limitNumber_finite:
  "lo \<le> hi \<Longrightarrow>
   limitNumber (JNumber (Finite r)) (Finite lo) (Finite hi) d = Finite (min hi (max lo r))"
  by (simp add: min_def max_def)

lemma limitNumber_infinite:
  "limitNumber (JNumber NegInfinity) (Finite lo) (Finite hi) d = Finite (min hi lo)"
  "limitNumber (JNumber PosInfinity) (Finite lo) (Finite hi) d = Finite hi"
  by (simp_all add: min_def)

lemma limitNumber_default:
  "\<not> is_number v \<or> v = JNumber NaN \<Longrightarrow> limitNumber v lo hi d = d"
  by (cases v) auto

lemma limitNumber_within:
  "lo \<le> hi \<Longrightarrow> lo \<le> d \<Longrightarrow> d \<le> hi \<Longrightarrow>
   in_interval lo hi (limitNumber v (Finite lo) (Finite hi) (Finite d))"
proof (cases v)
  case (JNumber n)
  assume "lo \<le> hi" "lo \<le> d" "d \<le> hi"
  then show ?thesis
    using JNumber by (cases n) (simp_all add: in_interval_def min_def)
qed (simp_all add: in_interval_def)

lemma list_ex_available:
  "list_ex (\<lambda>m. name m = n \<and> available m) ms \<longleftrightarrow> n \<in> set (map name (filter available ms))"
  by (induction ms) auto

lemma limitModel_cases:
  "limitModel n = (if n \<in> available_models then n else ''gpt-3.5-turbo'')"
  by (simp add: limitModel_def list_ex_available available_models_def) (simp add: ALL_MODELS_def)

text \<open>
  Claim C9. The validators are total and clamp: whatever the input, the result of
  \<open>temperature\<close> lies in \<open>[0, 2]\<close>, that of \<open>max_tokens\<close> in \<open>[0, 32000]\<close> and that
  of \<open>presence_penalty\<close> in \<open>[-2, 2]\<close>; a number inside the interval is returned
  unchanged, one below it gives the lower bound and one above it the upper bound
  (\<open>temperature(-5) = 0\<close>, the infinities included); \<^verbatim>\<open>NaN\<close> and every value that is not
  a number give the named default (\<open>1\<close>, \<open>2000\<close> and \<open>0\<close>); and \<open>model\<close> returns
  the name when it is one of the available models and \<^verbatim>\<open>gpt-3.5-turbo\<close> otherwise.
\<close>

theorem C9_validators_clamp:
  "in_interval 0 2 (ModalConfigValidator_temperature x)
   \<and> in_interval 0 32000 (ModalConfigValidator_max_tokens x)
   \<and> in_interval (-2) 2 (ModalConfigValidator_presence_penalty x)
   \<and> (0 \<le> r \<and> r \<le> 2 \<longrightarrow> ModalConfigValidator_temperature (JNumber (Finite r)) = Finite r)
   \<and> (0 \<le> r \<and> r \<le> 32000 \<longrightarrow> ModalConfigValidator_max_tokens (JNumber (Finite r)) = Finite r)
   \<and> (-2 \<le> r \<and> r \<le> 2 \<longrightarrow> ModalConfigValidator_presence_penalty (JNumber (Finite r)) = Finite r)
   \<and> (b < 0 \<longrightarrow> ModalConfigValidator_temperature (JNumber (Finite b)) = Finite 0
               \<and> ModalConfigValidator_max_tokens (JNumber (Finite b)) = Finite 0)
   \<and> (b < -2 \<longrightarrow> ModalConfigValidator_presence_penalty (JNumber (Finite b)) = Finite (-2))
   \<and> (2 < a \<longrightarrow> ModalConfigValidator_temperature (JNumber (Finite a)) = Finite 2
               \<and> ModalConfigValidator_presence_penalty (JNumber (Finite a)) = Finite 2)
   \<and> (32000 < a \<longrightarrow> ModalConfigValidator_max_tokens (JNumber (Finite a)) = Finite 32000)
   \<and> ModalConfigValidator_temperature (JNumber NegInfinity) = Finite 0
   \<and> ModalConfigValidator_max_tokens (JNumber NegInfinity) = Finite 0
   \<and> ModalConfigValidator_presence_penalty (JNumber NegInfinity) = Finite (-2)
   \<and> ModalConfigValidator_temperature (JNumber PosInfinity) = Finite 2
   \<and> ModalConfigValidator_max_tokens (JNumber PosInfinity) = Finite 32000
   \<and> ModalConfigValidator_presence_penalty (JNumber PosInfinity) = Finite 2
   \<and> ModalConfigValidator_temperature (JNumber (Finite (-5))) = Finite 0
   \<and> (\<not> is_number v \<or> v = JNumber NaN \<longrightarrow>
        ModalConfigValidator_temperature v = Finite 1
        \<and> ModalConfigValidator_max_tokens v = Finite 2000
        \<and> ModalConfigValidator_presence_penalty v = Finite 0)
   \<and> ModalConfigValidator_temperature (JNumber NaN) = Finite 1
   \<and> (n \<in> available_models \<longrightarrow> ModalConfigValidator_model n = n)
   \<and> (n \<notin> available_models \<longrightarrow> ModalConfigValidator_model n = ''gpt-3.5-turbo'')"
proof -
  have range: "in_interval 0 2 (ModalConfigValidator_temperature x)"
    "in_interval 0 32000 (ModalConfigValidator_max_tokens x)"
    "in_interval (-2) 2 (ModalConfigValidator_presence_penalty x)"
    unfolding ModalConfigValidator_temperature_def ModalConfigValidator_max_tokens_def ModalConfigValidator_presence_penalty_def
    by (rule limitNumber_within; simp)+
  have fin: "ModalConfigValidator_temperature (JNumber (Finite t)) = Finite (min 2 (max 0 t))"
    "ModalConfigValidator_max_tokens (JNumber (Finite t)) = Finite (min 32000 (max 0 t))"
    "ModalConfigValidator_presence_penalty (JNumber (Finite t)) = Finite (min 2 (max (-2) t))" for t
    unfolding ModalConfigValidator_temperature_def ModalConfigValidator_max_tokens_def ModalConfigValidator_presence_penalty_def
    by (simp_all add: limitNumber_finite)
  have inf: "ModalConfigValidator_temperature (JNumber NegInfinity) = Finite 0"
    "ModalConfigValidator_max_tokens (JNumber NegInfinity) = Finite 0"
    "ModalConfigValidator_presence_penalty (JNumber NegInfinity) = Finite (-2)"
    "ModalConfigValidator_temperature (JNumber PosInfinity) = Finite 2"
    "ModalConfigValidator_max_tokens (JNumber PosInfinity) = Finite 32000"
    "ModalConfigValidator_presence_penalty (JNumber PosInfinity) = Finite 2"
    unfolding ModalConfigValidator_temperature_def ModalConfigValidator_max_tokens_def ModalConfigValidator_presence_penalty_def
    by (simp_all add: limitNumber_infinite)
  have dflt: "\<not> is_number v \<or> v = JNumber NaN \<Longrightarrow>
      ModalConfigValidator_temperature v = Finite 1 \<and> ModalConfigValidator_max_tokens v = Finite 2000
      \<and> ModalConfigValidator_presence_penalty v = Finite 0"
    unfolding ModalConfigValidator_temperature_def ModalConfigValidator_max_tokens_def ModalConfigValidator_presence_penalty_def
    by (simp add: limitNumber_default)
  have nan: "ModalConfigValidator_temperature (JNumber NaN) = Finite 1"
    by (simp add: ModalConfigValidator_temperature_def)
  have model: "ModalConfigValidator_model n = (if n \<in> available_models then n else ''gpt-3.5-turbo'')"
    by (simp add: ModalConfigValidator_model_def limitModel_cases)
  show ?thesis
    using range inf dflt nan
    by (simp add: fin model)
qed

theorem C9_validators_clamp_witness:
  "ModalConfigValidator_temperature (JNumber (Finite 0.7)) = Finite 0.7
   \<and> ModalConfigValidator_max_tokens (JNumber (Finite 4000)) = Finite 4000
   \<and> ModalConfigValidator_presence_penalty (JNumber (Finite (-1))) = Finite (-1)
   \<and> ModalConfigValidator_temperature (JNumber (Finite (-5))) = Finite 0
   \<and> ModalConfigValidator_max_tokens (JNumber (Finite (-5))) = Finite 0
   \<and> ModalConfigValidator_presence_penalty (JNumber (Finite (-5))) = Finite (-2)
   \<and> ModalConfigValidator_temperature (JNumber (Finite 40000)) = Finite 2
   \<and> ModalConfigValidator_presence_penalty (JNumber (Finite 40000)) = Finite 2
   \<and> ModalConfigValidator_max_tokens (JNumber (Finite 40000)) = Finite 32000
   \<and> ModalConfigValidator_temperature (JString ''hot'') = Finite 1
   \<and> ModalConfigValidator_max_tokens (JString ''hot'') = Finite 2000
   \<and> ModalConfigValidator_presence_penalty (JString ''hot'') = Finite 0
   \<and> ModalConfigValidator_model ''gpt-4'' = ''gpt-4''
   \<and> ModalConfigValidator_model ''davinci'' = ''gpt-3.5-turbo''"
proof -
  have in1: "''gpt-4'' \<in> available_models"
    by (simp add: available_models_def ALL_MODELS_def ENABLE_GPT4_def)
  have out1: "''davinci'' \<notin> available_models"
    by (simp add: available_models_def ALL_MODELS_def ENABLE_GPT4_def)
  have a: "ModalConfigValidator_temperature (JNumber (Finite 0.7)) = Finite 0.7"
    using C9_validators_clamp [of undefined "0.7" 0 3 undefined undefined] by simp
  have b: "ModalConfigValidator_max_tokens (JNumber (Finite 4000)) = Finite 4000"
    using C9_validators_clamp [of undefined 4000 0 3 undefined undefined] by simp
  have c: "ModalConfigValidator_presence_penalty (JNumber (Finite (-1))) = Finite (-1)"
    using C9_validators_clamp [of undefined "-1" 0 3 undefined undefined] by simp
  have d: "ModalConfigValidator_temperature (JNumber (Finite (-5))) = Finite 0
      \<and> ModalConfigValidator_max_tokens (JNumber (Finite (-5))) = Finite 0
      \<and> ModalConfigValidator_presence_penalty (JNumber (Finite (-5))) = Finite (-2)"
    using C9_validators_clamp [of undefined 0 "-5" 3 undefined undefined] by simp
  have e: "ModalConfigValidator_temperature (JNumber (Finite 40000)) = Finite 2
      \<and> ModalConfigValidator_presence_penalty (JNumber (Finite 40000)) = Finite 2
      \<and> ModalConfigValidator_max_tokens (JNumber (Finite 40000)) = Finite 32000"
    using C9_validators_clamp [of undefined 0 0 40000 undefined undefined] by simp
  have f: "ModalConfigValidator_temperature (JString ''hot'') = Finite 1
      \<and> ModalConfigValidator_max_tokens (JString ''hot'') = Finite 2000
      \<and> ModalConfigValidator_presence_penalty (JString ''hot'') = Finite 0"
    using C9_validators_clamp [of undefined 0 0 3 "JString ''hot''" undefined] by simp
  have g: "ModalConfigValidator_model ''gpt-4'' = ''gpt-4''"
    using C9_validators_clamp [of undefined 0 0 3 undefined "''gpt-4''"] in1 by simp
  have h: "ModalConfigValidator_model ''davinci'' = ''gpt-3.5-turbo''"
    using C9_validators_clamp [of undefined 0 0 3 undefined "''davinci''"] out1 by simp
  show ?thesis using a b c d e f g h by simp
qed

section \<open>Array lemmas\<close>

lemma relative_index_in_range:
  "0 \<le> i \<Longrightarrow> i \<le> int len \<Longrightarrow> relative_index i len = nat i"
  by (simp add: relative_index_def)

lemma relative_index_le: "relative_index i len \<le> len"
  by (auto simp: relative_index_def)

lemma splice_remove_one:
  "0 \<le> i \<Longrightarrow> i < int (length xs) \<Longrightarrow>
   array_splice xs i 1 [] = take (nat i) xs @ drop (Suc (nat i)) xs"
  by (simp add: array_splice_def Let_def relative_index_def)

lemma splice_insert_one:
  "0 \<le> i \<Longrightarrow> i \<le> int (length xs) \<Longrightarrow>
   array_splice xs i 0 [x] = take (nat i) xs @ [x] @ drop (nat i) xs"
  by (simp add: array_splice_def Let_def relative_index_def)

lemma length_splice_remove: "length xs - 1 \<le> length (array_splice xs i 1 [])"
  by (auto simp: array_splice_def Let_def relative_index_def)

lemma length_splice_insert: "length (array_splice xs i 0 [x]) = Suc (length xs)"
  using relative_index_le [of i "length xs"]
  by (simp add: array_splice_def Let_def)

lemma slice_prefix:
  "0 \<le> i \<Longrightarrow> slice xs 0 i = take (nat i) xs"
  by (simp add: slice_def Let_def relative_index_def min_def)

lemma slice_from_drop:
  "0 \<le> i \<Longrightarrow> slice_from xs i = drop (nat i) xs"
  by (simp add: slice_from_def relative_index_def min_def)

lemma nth_remove:
  "k < length xs - 1 \<Longrightarrow> f < length xs \<Longrightarrow>
   (take f xs @ drop (Suc f) xs) ! k = (if k < f then xs ! k else xs ! Suc k)"
  by (simp add: nth_append min_def)

lemma nth_insert:
  "k \<le> length ys \<Longrightarrow> t \<le> length ys \<Longrightarrow>
   (take t ys @ [a] @ drop t ys) ! k = (if k < t then ys ! k else if k = t then a else ys ! (k - 1))"
proof -
  assume k: "k \<le> length ys" and t: "t \<le> length ys"
  have lt: "length (take t ys) = t" using t by simp
  consider "k < t" | "k = t" | "t < k" by linarith
  then show ?thesis
  proof cases
    case 1
    then show ?thesis using t by (simp add: nth_append)
  next
    case 2
    then show ?thesis using t by (simp add: nth_append)
  next
    case 3
    have "(take t ys @ [a] @ drop t ys) ! k = ([a] @ drop t ys) ! (k - t)"
      using 3 lt by (simp add: nth_append)
    also have "\<dots> = drop t ys ! (k - t - 1)"
      using 3 by (simp add: nth_Cons')
    also have "\<dots> = ys ! (t + (k - t - 1))"
      using t by simp
    also have "t + (k - t - 1) = k - 1"
      using 3 by arith
    finally show ?thesis using 3 by simp
  qed
qed

text \<open>
  Moving the element at \<open>f\<close> to \<open>t\<close>: the element that was at \<open>i\<close> is at \<open>t\<close> when
  \<open>i = f\<close>, one place down when \<open>f < i \<le> t\<close>, one place up when \<open>t \<le> i < f\<close>, and
  where it was otherwise.
\<close>

lemma move_nth:
  fixes xs :: "'a list"
  assumes f: "f < length xs" and t: "t < length xs" and i: "i < length xs"
    and ys: "ys = take f xs @ drop (Suc f) xs"
    and j: "j = (if i = f then t else if f < i \<and> i \<le> t then i - 1
              else if i < f \<and> t \<le> i then i + 1 else i)"
  shows "(take t ys @ [xs ! f] @ drop t ys) ! j = xs ! i"
proof -
  have len: "length ys = length xs - 1" using f ys by (simp add: min_def)
  have tl: "t \<le> length ys" using t len by linarith
  have rem: "k < length xs - 1 \<Longrightarrow> ys ! k = (if k < f then xs ! k else xs ! Suc k)" for k
    unfolding ys using f nth_remove [of k xs f] by blast
  have ins: "k \<le> length ys \<Longrightarrow>
      (take t ys @ [xs ! f] @ drop t ys) ! k
        = (if k < t then ys ! k else if k = t then xs ! f else ys ! (k - 1))" for k
    using tl nth_insert [of k ys t "xs ! f"] by blast
  consider (same) "i = f" | (fwd) "f < i" "i \<le> t" | (bwd) "i < f" "t \<le> i"
    | (below) "i < f" "i < t" | (above) "f < i" "t < i"
    by linarith
  then show ?thesis
  proof cases
    case same
    then have "j = t" using j by simp
    then show ?thesis using ins [of t] tl same by simp
  next
    case fwd
    then have jj: "j = i - 1" using j by simp
    have a: "i - 1 \<le> length ys" "i - 1 < t" "i - 1 < length xs - 1" "\<not> i - 1 < f" "Suc (i - 1) = i"
      using fwd i len by linarith+
    have "(take t ys @ [xs ! f] @ drop t ys) ! (i - 1) = ys ! (i - 1)"
      using ins [of "i - 1"] a by simp
    also have "\<dots> = xs ! i" using rem [of "i - 1"] a by simp
    finally show ?thesis using jj by simp
  next
    case bwd
    then have jj: "j = i + 1" using j by simp
    have a: "i + 1 \<le> length ys" "\<not> i + 1 < t" "i + 1 \<noteq> t" "i < length xs - 1"
      using bwd f len by linarith+
    have "(take t ys @ [xs ! f] @ drop t ys) ! (i + 1) = ys ! i"
      using ins [of "i + 1"] a by simp
    also have "\<dots> = xs ! i" using rem [of i] a bwd by simp
    finally show ?thesis using jj by simp
  next
    case below
    then have jj: "j = i" using j by simp
    have a: "i \<le> length ys" "i < length xs - 1"
      using below f len by linarith+
    have "(take t ys @ [xs ! f] @ drop t ys) ! i = ys ! i"
      using ins [of i] a below by simp
    also have "\<dots> = xs ! i" using rem [of i] a below by simp
    finally show ?thesis using jj by simp
  next
    case above
    then have jj: "j = i" using j by simp
    have a: "i \<le> length ys" "i - 1 < length xs - 1" "\<not> i - 1 < f" "Suc (i - 1) = i"
       "\<not> i < t" "i \<noteq> t"
      using above i len by linarith+
    have "(take t ys @ [xs ! f] @ drop t ys) ! i = ys ! (i - 1)"
      using ins [of i] a by simp
    also have "\<dots> = xs ! i" using rem [of "i - 1"] a by simp
    finally show ?thesis using jj by simp
  qed
qed

section \<open>The session collection\<close>

lemma sessions_currentSession [simp]: "sessions (snd (currentSession st)) = sessions st"
  by (simp add: currentSession_def Let_def)

lemma sessions_new_session [simp]: "sessions (snd (new_session s st)) = sessions st"
  by (simp add: new_session_def)

lemma length_sessions_removeSession:
  "sessions st \<noteq> [] \<Longrightarrow> 1 \<le> length (sessions (removeSession env clk i st))"
proof -
  assume ne: "sessions st \<noteq> []"
  show ?thesis
  proof (cases "length (sessions st) = 1")
    case True
    then show ?thesis by (simp add: removeSession_def Let_def new_session_def)
  next
    case False
    then have "2 \<le> length (sessions st)" using ne
      by (cases "sessions st") (auto simp: Suc_le_eq)
    then show ?thesis
      using False length_splice_remove [of "sessions st" i]
      by (simp add: removeSession_def Let_def)
  qed
qed

lemma length_sessions_moveSession:
  "1 \<le> length (sessions (moveSession from to st))"
  by (simp add: moveSession_def Let_def length_splice_insert)

lemma length_sessions_newSession:
  "length (sessions (newSession env clk st)) = Suc (length (sessions st))"
  by (simp add: newSession_def new_session_def)

lemma sessions_clearSessions:
  "sessions (clearSessions env clk st) = [Some (nextRef st)]"
  by (simp add: clearSessions_def new_session_def)

lemma length_sessions_Revert_onClick:
  "1 \<le> length (sessions (Revert_onClick rv st))"
  by (simp add: Revert_onClick_def)

lemma removeSession_sole:
  "length (sessions st) = 1 \<Longrightarrow>
   removeSession env clk i st =
     st\<lparr>sessionObj := (sessionObj st)(nextRef st := createEmptySession env clk),
        nextRef := Suc (nextRef st), currentSessionIndex := 0, sessions := [Some (nextRef st)]\<rparr>"
  by (simp add: removeSession_def new_session_def)


lemma session_at_in_range:
  "0 \<le> i \<Longrightarrow> i < int (length xs) \<Longrightarrow> session_at xs i = xs ! nat i"
  by (simp add: session_at_def index_def)

lemma currentSession_clamped:
  assumes "sessions st \<noteq> []"
  shows "0 \<le> currentSessionIndex (snd (currentSession st))"
    and "currentSessionIndex (snd (currentSession st)) < int (length (sessions st))"
    and "fst (currentSession st)
           = sessions st ! nat (currentSessionIndex (snd (currentSession st)))"
  using assms
  by (auto simp: currentSession_def Let_def session_at_in_range)

lemma currentSession_valid:
  "0 \<le> currentSessionIndex st \<Longrightarrow> currentSessionIndex st < int (length (sessions st)) \<Longrightarrow>
   currentSession st = (sessions st ! nat (currentSessionIndex st), st)"
  by (simp add: currentSession_def Let_def session_at_in_range)

lemma take_remove:
  "i < length xs \<Longrightarrow> take i (take i xs @ drop (Suc i) xs) = take i xs"
  by (simp add: min_def)

lemma drop_remove:
  "i < length xs \<Longrightarrow> drop i (take i xs @ drop (Suc i) xs) = drop (Suc i) xs"
  by (simp add: min_def)

lemma undo_restores:
  assumes ne: "xs \<noteq> []" and i0: "0 \<le> i" and i1: "i < int (length xs)"
    and ys: "ys = (if length xs = 1 then [fresh] else array_splice xs i 1 [])"
  shows "slice ys 0 i @ [xs ! nat i] @ slice_from ys (i + (if length xs = 1 then 1 else 0)) = xs"
proof (cases "length xs = 1")
  case True
  then obtain x where x: "xs = [x]" by (cases xs) auto
  then have "i = 0" using i0 i1 by simp
  then show ?thesis
    using True ys x by (simp add: slice_def slice_from_def relative_index_def)
next
  case False
  have n: "nat i < length xs" using i0 i1 by linarith
  have ys': "ys = take (nat i) xs @ drop (Suc (nat i)) xs"
    using False ys i0 i1 by (simp add: splice_remove_one)
  have a: "slice ys 0 i = take (nat i) xs"
    using i0 n by (simp only: slice_prefix ys' take_remove)
  have b: "slice_from ys i = drop (Suc (nat i)) xs"
    using i0 n by (simp only: slice_from_drop ys' drop_remove)
  show ?thesis
    using False a b n by (simp add: id_take_nth_drop [symmetric])
qed


lemma sessions_removeSession:
  "sessions (removeSession env clk i st) =
     (if length (sessions st) = 1 then [Some (nextRef st)] else array_splice (sessions st) i 1 [])"
  by (simp add: removeSession_def Let_def new_session_def)

text \<open>
  Claim C2. The session collection is never empty. From a state with at least one session,
  \<open>newSession\<close>, \<open>removeSession\<close>, \<open>moveSession\<close> (whatever the indices),
  \<open>clearSessions\<close>, \<open>deleteSession\<close> and the undo of its toast (clicked in any
  later state \<open>st'\<close>) each leave at least one session. Removing the only session leaves
  exactly one, a new object that is the empty session (no messages, the default topic, an
  empty memory prompt), and the current index 0.
\<close>

theorem C2_sessions_never_empty:
  assumes "1 \<le> length (sessions st)"
  shows "1 \<le> length (sessions (newSession env clk st))
       \<and> 1 \<le> length (sessions (removeSession env clk i st))
       \<and> 1 \<le> length (sessions (moveSession from to st))
       \<and> 1 \<le> length (sessions (clearSessions env clk st))
       \<and> 1 \<le> length (sessions (fst (deleteSession env clk isMobileScreen confirm st)))
       \<and> 1 \<le> length (sessions (Revert_onClick
                                   (snd (deleteSession env clk isMobileScreen confirm st)) st'))
       \<and> (length (sessions st) = 1 \<longrightarrow>
            sessions (removeSession env clk i st) = [Some (nextRef st)]
            \<and> currentSessionIndex (removeSession env clk i st) = 0
            \<and> sessionObj (removeSession env clk i st) (nextRef st) = createEmptySession env clk
            \<and> messages (createEmptySession env clk) = []
            \<and> topic (createEmptySession env clk) = DefaultTopic env
            \<and> memoryPrompt (createEmptySession env clk) = '''')"
proof -
  have ne: "sessions st \<noteq> []" using assms by auto
  have ne1: "sessions (snd (currentSession st)) \<noteq> []" using ne by simp
  have del: "1 \<le> length (sessions (fst (deleteSession env clk isMobileScreen confirm st)))"
    using length_sessions_removeSession [OF ne1] assms
    by (simp add: deleteSession_def Let_def split_beta)
  have sole: "length (sessions st) = 1 \<Longrightarrow>
            sessions (removeSession env clk i st) = [Some (nextRef st)]
            \<and> currentSessionIndex (removeSession env clk i st) = 0
            \<and> sessionObj (removeSession env clk i st) (nextRef st) = createEmptySession env clk"
    by (simp add: removeSession_sole)
  have fresh: "messages (createEmptySession env clk) = []
      \<and> topic (createEmptySession env clk) = DefaultTopic env
      \<and> memoryPrompt (createEmptySession env clk) = ''''"
    by (simp add: createEmptySession_def)
  show ?thesis
    using length_sessions_removeSession [OF ne, of env clk i]
      length_sessions_moveSession [of "from" to st]
      length_sessions_Revert_onClick del sole fresh
    by (simp add: length_sessions_newSession sessions_clearSessions)
qed

theorem C2_sessions_never_empty_witness:
  "1 \<le> length (sessions one_session)
   \<and> length (sessions one_session) = 1
   \<and> sessions (removeSession sample_env sample_clock 0 one_session) = [Some 20]
   \<and> currentSessionIndex (removeSession sample_env sample_clock 0 one_session) = 0
   \<and> messages (sessionObj (removeSession sample_env sample_clock 0 one_session) 20) = []
   \<and> 1 \<le> length (sessions (moveSession 0 0 one_session))"
proof -
  have h: "1 \<le> length (sessions one_session)" by (simp add: one_session_def)
  have n: "nextRef one_session = 20" by (simp add: one_session_def)
  show ?thesis
    using C2_sessions_never_empty [OF h, of sample_env sample_clock 0 0 0 False False one_session] n
    by (simp add: one_session_def)
qed

text \<open>
  Claim C7. \<open>moveSession(from, to)\<close> with both indices inside the collection keeps the
  current session: the slot at the new current index holds the object that the slot at
  the old current index held, and no session object is changed. This is so for every
  current index, also one outside the collection, where both lookups find nothing.
\<close>

theorem C7_moveSession_keeps_current:
  assumes "0 \<le> from" "from < int (length (sessions st))"
    and "0 \<le> to" "to < int (length (sessions st))"
  shows "index (sessions (moveSession from to st)) (currentSessionIndex (moveSession from to st))
           = index (sessions st) (currentSessionIndex st)
         \<and> sessionObj (moveSession from to st) = sessionObj st"
proof -
  have obj: "sessionObj (moveSession from to st) = sessionObj st"
    by (simp add: moveSession_def Let_def)
  let ?xs = "sessions st"
  let ?i = "currentSessionIndex st"
  let ?f = "nat from" and ?t = "nat to"
  define ys where "ys = take ?f ?xs @ drop (Suc ?f) ?xs"
  define j where "j = (if ?i = from then to else if from < ?i \<and> ?i \<le> to then ?i - 1
                       else if ?i < from \<and> to \<le> ?i then ?i + 1 else ?i)"
  have f: "?f < length ?xs" and t: "?t < length ?xs" using assms by linarith+
  have leny: "length ys = length ?xs - 1" using f by (simp add: ys_def min_def)
  have s1: "array_splice ?xs from 1 [] = ys"
    using assms by (simp add: splice_remove_one ys_def)
  have s2: "array_splice ys to 0 [?xs ! ?f] = take ?t ys @ [?xs ! ?f] @ drop ?t ys"
    using assms leny by (intro splice_insert_one) linarith+
  define zs where "zs = take ?t ys @ [?xs ! ?f] @ drop ?t ys"
  have sess: "sessions (moveSession from to st) = zs"
    using assms s2 by (simp add: moveSession_def Let_def s1 session_at_in_range zs_def)
  have len: "length zs = length ?xs"
    using f t leny by (simp add: zs_def)
  have cur: "currentSessionIndex (moveSession from to st) = j"
    by (auto simp: moveSession_def Let_def j_def)
  show ?thesis
  proof (cases "0 \<le> ?i \<and> ?i < int (length ?xs)")
    case True
    then have i: "nat ?i < length ?xs" by linarith
    have j0: "0 \<le> j" and j1: "j < int (length ?xs)"
      using True assms by (auto simp: j_def)
    have jn: "nat j = (if nat ?i = ?f then ?t else if ?f < nat ?i \<and> nat ?i \<le> ?t then nat ?i - 1
              else if nat ?i < ?f \<and> ?t \<le> nat ?i then nat ?i + 1 else nat ?i)"
      using True assms by (auto simp: j_def)
    have "zs ! nat j = ?xs ! nat ?i"
      unfolding zs_def using move_nth [OF f t i ys_def jn] .
    then show ?thesis
      using True j0 j1 by (simp add: index_def sess cur len obj)
  next
    case False
    then have "j = ?i" using assms by (auto simp: j_def)
    then show ?thesis
      using False by (auto simp: index_def sess cur len obj)
  qed
qed

theorem C7_moveSession_keeps_current_witness:
  "index (sessions (moveSession 0 2 three_sessions))
         (currentSessionIndex (moveSession 0 2 three_sessions)) = Some (Some 11)
   \<and> currentSessionIndex (moveSession 0 2 three_sessions) = 0
   \<and> index (sessions three_sessions) (currentSessionIndex three_sessions) = Some (Some 11)"
proof -
  have h: "(0::int) \<le> 0" "0 < int (length (sessions three_sessions))"
    "(0::int) \<le> 2" "2 < int (length (sessions three_sessions))"
    by (simp_all add: three_sessions_def)
  have c: "index (sessions three_sessions) (currentSessionIndex three_sessions) = Some (Some 11)"
    by (simp add: three_sessions_def index_def)
  have i: "currentSessionIndex (moveSession 0 2 three_sessions) = 0"
    by (simp add: moveSession_def Let_def three_sessions_def)
  show ?thesis
    using C7_moveSession_keeps_current [OF h] c i by simp
qed

lemma currentSession_frame [simp]:
  "config (snd (currentSession st)) = config st"
  "sessionObj (snd (currentSession st)) = sessionObj st"
  "messageObj (snd (currentSession st)) = messageObj st"
  "nextRef (snd (currentSession st)) = nextRef st"
  "controllers (snd (currentSession st)) = controllers st"
  by (simp_all add: currentSession_def Let_def)

lemma sessionObj_removeSession:
  "sessionObj (removeSession env clk i st) =
     (if length (sessions st) = 1 then (sessionObj st)(nextRef st := createEmptySession env clk)
      else sessionObj st)"
  by (simp add: removeSession_def Let_def new_session_def)

text \<open>
  Claim C8. When \<open>deleteSession\<close> removes the current session (the screen is not a
  mobile one, or the user confirms), clicking the undo of its toast in the state it leaves
  gives back the collection as it was before, with the removed object at its index
  \<open>i\<close>, the current index after the clamping of \<open>currentSession\<close>. The collection
  only has to be non-empty, so the case of the sole session is included. The session
  objects of the collection are as they were, the new empty session that stood in for a
  sole session being another object.
\<close>

theorem C8_delete_then_undo:
  assumes "sessions st \<noteq> []" and "\<not> isMobileScreen \<or> confirm"
  shows "sessions (Revert_onClick (snd (deleteSession env clk isMobileScreen confirm st))
                   (fst (deleteSession env clk isMobileScreen confirm st)))
           = sessions st
         \<and> revert_index (snd (deleteSession env clk isMobileScreen confirm st))
           = currentSessionIndex (snd (currentSession st))
         \<and> index (sessions st) (currentSessionIndex (snd (currentSession st)))
           = Some (revert_deletedSession (snd (deleteSession env clk isMobileScreen confirm st)))
         \<and> (sessions_allocated st \<longrightarrow>
              list_all
                (\<lambda>slot. case slot of
                    None \<Rightarrow> True
                  | Some r \<Rightarrow>
                      sessionObj (Revert_onClick
                                    (snd (deleteSession env clk isMobileScreen confirm st))
                                    (fst (deleteSession env clk isMobileScreen confirm st))) r
                        = sessionObj st r)
                (sessions st))"
proof -
  let ?st1 = "snd (currentSession st)"
  let ?i = "currentSessionIndex ?st1"
  let ?d = "fst (currentSession st)"
  let ?xs = "sessions st"
  have i0: "0 \<le> ?i" and i1: "?i < int (length ?xs)" and d: "?d = ?xs ! nat ?i"
    using currentSession_clamped [OF assms(1)] by blast+
  have del: "deleteSession env clk isMobileScreen confirm st =
      (removeSession env clk ?i ?st1,
       \<lparr>revert_index = ?i, revert_deletedSession = ?d,
        revert_isLastSession = (length ?xs = 1)\<rparr>)"
    using assms(2) by (simp add: deleteSession_def Let_def split_beta)
  have rem: "sessions (removeSession env clk ?i ?st1) =
      (if length ?xs = 1 then [Some (nextRef ?st1)] else array_splice ?xs ?i 1 [])"
    by (simp add: sessions_removeSession)
  have "sessions (Revert_onClick (snd (deleteSession env clk isMobileScreen confirm st))
                   (fst (deleteSession env clk isMobileScreen confirm st)))
      = slice (sessions (removeSession env clk ?i ?st1)) 0 ?i @ [?xs ! nat ?i]
        @ slice_from (sessions (removeSession env clk ?i ?st1))
            (?i + (if length ?xs = 1 then 1 else 0))"
    by (simp add: del Revert_onClick_def d)
  also have "\<dots> = ?xs"
    using undo_restores [OF assms(1) i0 i1 rem] .
  finally have restored: "sessions (Revert_onClick (snd (deleteSession env clk isMobileScreen confirm st))
                   (fst (deleteSession env clk isMobileScreen confirm st))) = ?xs" .
  have at: "index ?xs ?i = Some ?d"
    using i0 i1 d by (simp add: index_def)
  have obj: "sessionObj (Revert_onClick (snd (deleteSession env clk isMobileScreen confirm st))
                   (fst (deleteSession env clk isMobileScreen confirm st)))
      = (if length ?xs = 1 then (sessionObj st)(nextRef st := createEmptySession env clk)
         else sessionObj st)"
    by (simp add: del Revert_onClick_def sessionObj_removeSession)
  have kept: "sessions_allocated st \<Longrightarrow>
      list_all
        (\<lambda>slot. case slot of
            None \<Rightarrow> True
          | Some r \<Rightarrow>
              (if length ?xs = 1 then (sessionObj st)(nextRef st := createEmptySession env clk)
               else sessionObj st) r = sessionObj st r)
        ?xs"
    by (auto simp: sessions_allocated_def list_all_iff split: option.splits)
  have kept': "sessions_allocated st \<longrightarrow>
      list_all
        (\<lambda>slot. case slot of
            None \<Rightarrow> True
          | Some r \<Rightarrow>
              sessionObj (Revert_onClick
                            (snd (deleteSession env clk isMobileScreen confirm st))
                            (fst (deleteSession env clk isMobileScreen confirm st))) r
                = sessionObj st r)
        (sessions st)"
    unfolding obj using kept by blast
  have first: "sessions (Revert_onClick (snd (deleteSession env clk isMobileScreen confirm st))
                   (fst (deleteSession env clk isMobileScreen confirm st)))
           = sessions st
         \<and> revert_index (snd (deleteSession env clk isMobileScreen confirm st))
           = currentSessionIndex (snd (currentSession st))
         \<and> index (sessions st) (currentSessionIndex (snd (currentSession st)))
           = Some (revert_deletedSession (snd (deleteSession env clk isMobileScreen confirm st)))"
    using restored at by (simp add: del)
  show ?thesis
    using first kept' by blast
qed

theorem C8_delete_then_undo_witness:
  "sessions (Revert_onClick (snd (deleteSession sample_env sample_clock False False three_sessions))
               (fst (deleteSession sample_env sample_clock False False three_sessions)))
     = [Some 10, Some 11, Some 12]
   \<and> sessions (fst (deleteSession sample_env sample_clock False False three_sessions))
     = [Some 10, Some 12]
   \<and> revert_deletedSession (snd (deleteSession sample_env sample_clock False False three_sessions))
     = Some 11
   \<and> sessions_allocated three_sessions
   \<and> sessionObj (Revert_onClick
        (snd (deleteSession sample_env sample_clock False False three_sessions))
        (fst (deleteSession sample_env sample_clock False False three_sessions))) 11
     = sessionObj three_sessions 11
   \<and> sessions (fst (deleteSession sample_env sample_clock True True one_session)) = [Some 20]
   \<and> sessions (Revert_onClick (snd (deleteSession sample_env sample_clock True True one_session))
               (fst (deleteSession sample_env sample_clock True True one_session)))
     = [Some 10]
   \<and> sessionObj (Revert_onClick
        (snd (deleteSession sample_env sample_clock True True one_session))
        (fst (deleteSession sample_env sample_clock True True one_session))) 10
     = sessionObj one_session 10"
proof -
  have h: "sessions three_sessions \<noteq> []" by (simp add: three_sessions_def)
  have c: "currentSession three_sessions = (Some 11, three_sessions)"
    by (simp add: currentSession_def three_sessions_def session_at_def index_def)
  have d: "sessions (fst (deleteSession sample_env sample_clock False False three_sessions))
     = [Some 10, Some 12]"
    by (simp add: deleteSession_def Let_def c sessions_removeSession)
      (simp add: three_sessions_def array_splice_def relative_index_def)
  have s: "sessions three_sessions = [Some 10, Some 11, Some 12]"
    by (simp add: three_sessions_def)
  have i: "index (sessions three_sessions) (currentSessionIndex three_sessions) = Some (Some 11)"
    by (simp add: three_sessions_def index_def)
  have al: "sessions_allocated three_sessions"
    by (simp add: sessions_allocated_def three_sessions_def)
  have three: "sessions (Revert_onClick
               (snd (deleteSession sample_env sample_clock False False three_sessions))
               (fst (deleteSession sample_env sample_clock False False three_sessions)))
     = [Some 10, Some 11, Some 12]
   \<and> revert_deletedSession (snd (deleteSession sample_env sample_clock False False three_sessions))
     = Some 11
   \<and> sessionObj (Revert_onClick
        (snd (deleteSession sample_env sample_clock False False three_sessions))
        (fst (deleteSession sample_env sample_clock False False three_sessions))) 11
     = sessionObj three_sessions 11"
    using C8_delete_then_undo [of three_sessions False False sample_env sample_clock] h s i al
    by (simp add: c)
  have h1: "sessions one_session \<noteq> []" by (simp add: one_session_def)
  have c1: "currentSession one_session = (Some 10, one_session)"
    by (simp add: currentSession_def one_session_def session_at_def index_def)
  have d1: "sessions (fst (deleteSession sample_env sample_clock True True one_session))
     = [Some 20]"
    by (simp add: deleteSession_def Let_def c1 sessions_removeSession)
      (simp add: one_session_def)
  have s1: "sessions one_session = [Some 10]"
    by (simp add: one_session_def)
  have al1: "sessions_allocated one_session"
    by (simp add: sessions_allocated_def one_session_def)
  have one: "sessions (Revert_onClick
               (snd (deleteSession sample_env sample_clock True True one_session))
               (fst (deleteSession sample_env sample_clock True True one_session)))
     = [Some 10]
   \<and> sessionObj (Revert_onClick
        (snd (deleteSession sample_env sample_clock True True one_session))
        (fst (deleteSession sample_env sample_clock True True one_session))) 10
     = sessionObj one_session 10"
    using C8_delete_then_undo [of one_session True True sample_env sample_clock] h1 s1 al1
    by simp
  show ?thesis
    using three d al one d1 by simp
qed

section \<open>The context assembler\<close>

lemma currentSession_idem:
  "currentSession (snd (currentSession st)) = currentSession st"
proof (cases "sessions st = []")
  case True
  then show ?thesis by (simp add: currentSession_def Let_def)
next
  case False
  then have "0 < length (sessions st)" by simp
  then show ?thesis
    by (auto simp: currentSession_def Let_def min_def max_def)
qed

lemma nonErrorMessages_currentSession [simp]:
  "nonErrorMessages (snd (currentSession st)) s = nonErrorMessages st s"
  by (simp add: nonErrorMessages_def)

lemma getMemoryPrompt_Some:
  "fst (currentSession st) = Some r \<Longrightarrow>
   getMemoryPrompt env st =
     (Inr \<lparr>role = System, content = PromptHistory env (memoryPrompt (sessionObj st r)),
           date = '''', streaming = None, isError = None, message_id = None\<rparr>,
      snd (currentSession st))"
  by (simp add: getMemoryPrompt_def split_beta)

lemma historyWindow_nonneg:
  assumes "0 \<le> historyMessageCount cfg"
  shows "historyWindow cfg msgs = drop (length msgs - nat (historyMessageCount cfg)) msgs"
proof -
  let ?n = "int (length msgs)" and ?k = "historyMessageCount cfg"
  have "relative_index (max 0 (?n - ?k)) (length msgs) = length msgs - nat ?k"
    using assms by (auto simp: relative_index_def)
  then show ?thesis by (simp add: historyWindow_def Let_def slice_from_def)
qed

lemma length_historyWindow:
  "0 \<le> historyMessageCount cfg \<Longrightarrow>
   length (historyWindow cfg msgs) = min (nat (historyMessageCount cfg)) (length msgs)"
  by (simp add: historyWindow_nonneg)

lemma historyWindow_negative:
  assumes "historyMessageCount cfg < 0"
  shows "historyWindow cfg msgs = []"
proof -
  let ?n = "int (length msgs)" and ?k = "historyMessageCount cfg"
  have "relative_index (max 0 (?n - ?k)) (length msgs) = length msgs"
    using assms by (auto simp: relative_index_def)
  then show ?thesis by (simp add: historyWindow_def Let_def slice_from_def)
qed

text \<open>
  The list of \<open>getMessagesWithMemory\<close> ends with the trailing window of the current
  session's messages that are not flagged.
\<close>

lemma getMessagesWithMemory_window:
  assumes "fst (currentSession st) = Some r"
  shows "\<exists>front. getMessagesWithMemory env st =
           (Inr (front @ historyWindow (config st) (nonErrorMessages st (sessionObj st r))),
            snd (currentSession st))"
proof -
  let ?st1 = "snd (currentSession st)"
  have cur1: "fst (currentSession ?st1) = Some r"
    using assms by (simp add: currentSession_idem)
  have st2: "snd (currentSession ?st1) = ?st1"
    by (simp add: currentSession_idem)
  have mem: "getMemoryPrompt env ?st1 =
     (Inr \<lparr>role = System, content = PromptHistory env (memoryPrompt (sessionObj st r)),
           date = '''', streaming = None, isError = None, message_id = None\<rparr>, ?st1)"
    using getMemoryPrompt_Some [OF cur1, of env] st2 by simp
  show ?thesis
    using assms
    by (cases "SYSTEM_PROMPT env")
       (simp_all add: getMessagesWithMemory_def split_beta Let_def mem)
qed

lemma nonErrorMessages_not_flagged:
  "list_all (\<lambda>m. \<not> truthy (isError m)) (nonErrorMessages st s)"
  by (simp add: nonErrorMessages_def list_all_iff)

lemma historyWindow_subset:
  "set (historyWindow cfg msgs) \<subseteq> set msgs"
  by (simp add: historyWindow_def Let_def slice_from_def set_drop_subset)

text \<open>
  For a count \<open>k \<ge> 0\<close> the list of \<open>getMessagesWithMemory\<close> ends with the last
  \<open>min k m\<close> of the \<open>m\<close> unflagged messages, in their order.
\<close>

lemma getMessagesWithMemory_nonneg_count:
  assumes cur: "fst (currentSession st) = Some r"
    and k: "0 \<le> historyMessageCount (config st)"
  shows "\<exists>front window.
           fst (getMessagesWithMemory env st) = Inr (front @ window)
           \<and> window = drop (length (nonErrorMessages st (sessionObj st r))
                             - min (nat (historyMessageCount (config st)))
                                   (length (nonErrorMessages st (sessionObj st r))))
                        (nonErrorMessages st (sessionObj st r))
           \<and> length window = min (nat (historyMessageCount (config st)))
                                  (length (nonErrorMessages st (sessionObj st r)))"
proof -
  let ?ms = "nonErrorMessages st (sessionObj st r)"
  let ?k = "nat (historyMessageCount (config st))"
  obtain front where f: "fst (getMessagesWithMemory env st)
      = Inr (front @ historyWindow (config st) ?ms)"
    using getMessagesWithMemory_window [OF cur, of env] by auto
  have w: "historyWindow (config st) ?ms = drop (length ?ms - min ?k (length ?ms)) ?ms"
    using historyWindow_nonneg [OF k, of ?ms] by (simp add: min_def)
  have l: "length (drop (length ?ms - min ?k (length ?ms)) ?ms) = min ?k (length ?ms)"
    by (simp add: min_def)
  show ?thesis using f w l by auto
qed

lemma nonErrorMessages_sample:
  "messageObj st = sample_messages \<Longrightarrow>
   nonErrorMessages st (sample_session [2, 3, 4, 5] k)
     = [sample_message User ''hi'' None, sample_message Assistant ''hello'' None]"
  by (simp add: nonErrorMessages_def sample_session_def sample_messages_def sample_message_def)

text \<open>
  Claim C1, at \<^verbatim>\<open>historyMessageCount = -1\<close>. For a count \<open>k \<ge> 0\<close> the window is as the
  claim says (\<open>getMessagesWithMemory_nonneg_count\<close> above: the last \<open>min k m\<close> of
  the \<open>m\<close> unflagged messages, in order). For \<open>-1\<close>, which the comment on the config
  field reads as "all", the start of the slice is \<open>max 0 (n + 1) = n + 1\<close>, past the
  end, and the window is empty (\<open>historyWindow_negative\<close>). In \<open>unbounded_history\<close>
  the current session holds two unflagged messages; the window is empty, and whatever the
  example block and the system prompt are, \<open>getMessagesWithMemory\<close> returns them and
  nothing else, where the claim has the two messages at the end.
\<close>

theorem C1_minus_one_drops_history:
  "historyMessageCount (config unbounded_history) = -1
   \<and> nonErrorMessages unbounded_history (sessionObj unbounded_history 10)
     = [sample_message User ''hi'' None, sample_message Assistant ''hello'' None]
   \<and> historyWindow (config unbounded_history)
        (nonErrorMessages unbounded_history (sessionObj unbounded_history 10)) = []
   \<and> fst (getMessagesWithMemory env unbounded_history)
     = Inr ((case SYSTEM_PROMPT env of
               None \<Rightarrow> []
             | Some p \<Rightarrow> [\<lparr>role = System, content = p, date = '''', streaming = None,
                           isError = None, message_id = None\<rparr>])
            @ exampleMessages env)"
proof -
  have k: "historyMessageCount (config unbounded_history) = -1"
    by (simp add: unbounded_history_def)
  have cur: "fst (currentSession unbounded_history) = Some 10"
    by (simp add: unbounded_history_def one_session_def currentSession_def session_at_def
        index_def)
  have obj: "sessionObj unbounded_history 10 = sample_session [2, 3, 4, 5] 0"
    by (simp add: unbounded_history_def one_session_def)
  have msgs: "nonErrorMessages unbounded_history (sessionObj unbounded_history 10)
     = [sample_message User ''hi'' None, sample_message Assistant ''hello'' None]"
    unfolding obj by (rule nonErrorMessages_sample) (simp add: unbounded_history_def one_session_def)
  have win: "historyWindow (config unbounded_history) ms = []" for ms
    by (rule historyWindow_negative) (simp add: k)
  have "getMessagesWithMemory env unbounded_history
          = (Inr ((case SYSTEM_PROMPT env of
               None \<Rightarrow> []
             | Some p \<Rightarrow> [\<lparr>role = System, content = p, date = '''', streaming = None,
                           isError = None, message_id = None\<rparr>])
            @ exampleMessages env), snd (currentSession unbounded_history))"
    using cur
    by (simp add: getMessagesWithMemory_def split_beta Let_def win obj)
       (simp add: sample_session_def createEmptySession_def split: option.splits)
  then show ?thesis using k msgs win by simp
qed

section \<open>Summarization\<close>

lemma foldl_add_sum_list:
  "foldl (\<lambda>pre cur. pre + f cur) z xs = z + sum_list (map f xs)" for z :: int
  by (induction xs arbitrary: z) simp_all

lemma countMessages_sum_list:
  "countMessages msgs = sum_list (map (\<lambda>m. int (length (content m))) msgs)"
  by (simp add: countMessages_def foldl_add_sum_list)

lemma countMessages_append:
  "countMessages (xs @ ys) = countMessages xs + countMessages ys"
  by (simp add: countMessages_sum_list)

text \<open>The count is the count of the unflagged messages plus that of the flagged ones.\<close>

lemma countMessages_split:
  "countMessages msgs
     = countMessages (filter (\<lambda>m. \<not> truthy (isError m)) msgs)
       + countMessages (filter (\<lambda>m. truthy (isError m)) msgs)"
  by (induction msgs) (simp_all add: countMessages_sum_list)

text \<open>
  What \<open>summarizeSession\<close> returns when there is a current session \<open>r\<close>: \<open>pending\<close>
  is the slice from \<^verbatim>\<open>lastSummarizeIndex\<close> on, with the flagged messages in it.
\<close>

lemma summarizeSession_compressRequest:
  assumes cur: "fst (currentSession st) = Some r"
  shows "\<exists>res. summarizeSession env st = (Inr res, snd (currentSession st))
      \<and> compressRequest res =
          (let s = sessionObj st r;
               pending = slice_from (map (messageObj st) (messages s)) (lastSummarizeIndex s);
               sent =
                 (if num_gt (Finite (of_int (countMessages pending)))
                       (max_tokens (modelConfig (config st)))
                  then slice_from pending
                         (max 0 (int (length pending) - historyMessageCount (config st)))
                  else pending)
           in if countMessages pending > compressMessageLengthThreshold (config st) then
                Some \<lparr>compress_messages =
                        \<lparr>role = System, content = PromptHistory env (memoryPrompt s),
                         date = '''', streaming = None, isError = None, message_id = None\<rparr>
                        # sent
                        @ [\<lparr>role = System, content = PromptSummarize env, date = '''',
                            streaming = None, isError = None, message_id = None\<rparr>],
                      compress_historyMsgLength = countMessages pending,
                      compress_session = r,
                      compress_lastSummarizeIndex = int (length (messages s))\<rparr>
              else None)"
proof -
  let ?st1 = "snd (currentSession st)"
  have cur1: "fst (currentSession ?st1) = Some r"
    using cur by (simp add: currentSession_idem)
  have st2: "snd (currentSession ?st1) = ?st1"
    by (simp add: currentSession_idem)
  have mem: "getMemoryPrompt env ?st1 =
     (Inr \<lparr>role = System, content = PromptHistory env (memoryPrompt (sessionObj st r)),
           date = '''', streaming = None, isError = None, message_id = None\<rparr>, ?st1)"
    using getMemoryPrompt_Some [OF cur1, of env] st2 by simp
  show ?thesis
    using cur by (simp add: summarizeSession_def split_beta Let_def mem)
qed

lemma summarizeTriggered_iff:
  assumes cur: "fst (currentSession st) = Some r"
  shows "summarizeTriggered env st \<longleftrightarrow>
     countMessages (slice_from (map (messageObj st) (messages (sessionObj st r)))
                      (lastSummarizeIndex (sessionObj st r)))
       > compressMessageLengthThreshold (config st)"
proof -
  obtain res where res: "summarizeSession env st = (Inr res, snd (currentSession st))"
    and req: "compressRequest res =
          (let s = sessionObj st r;
               pending = slice_from (map (messageObj st) (messages s)) (lastSummarizeIndex s);
               sent =
                 (if num_gt (Finite (of_int (countMessages pending)))
                       (max_tokens (modelConfig (config st)))
                  then slice_from pending
                         (max 0 (int (length pending) - historyMessageCount (config st)))
                  else pending)
           in if countMessages pending > compressMessageLengthThreshold (config st) then
                Some \<lparr>compress_messages =
                        \<lparr>role = System, content = PromptHistory env (memoryPrompt s),
                         date = '''', streaming = None, isError = None, message_id = None\<rparr>
                        # sent
                        @ [\<lparr>role = System, content = PromptSummarize env, date = '''',
                            streaming = None, isError = None, message_id = None\<rparr>],
                      compress_historyMsgLength = countMessages pending,
                      compress_session = r,
                      compress_lastSummarizeIndex = int (length (messages s))\<rparr>
              else None)"
    using summarizeSession_compressRequest [OF cur, of env] by blast
  show ?thesis
    by (simp add: summarizeTriggered_def res req Let_def)
qed

lemma sample_current:
  "fst (currentSession one_session) = Some 10"
  "fst (currentSession without_failed_exchange) = Some 10"
  by (simp_all add: one_session_def without_failed_exchange_def
      currentSession_def session_at_def index_def)

lemma sample_counts:
  "countMessages (slice_from (map (messageObj one_session)
       (messages (sessionObj one_session 10)))
       (lastSummarizeIndex (sessionObj one_session 10))) = 1107"
  "countMessages (slice_from (map (messageObj without_failed_exchange)
       (messages (sessionObj without_failed_exchange 10)))
       (lastSummarizeIndex (sessionObj without_failed_exchange 10))) = 7"
  "compressMessageLengthThreshold (config one_session) = 1000"
  "compressMessageLengthThreshold (config without_failed_exchange) = 1000"
  by (simp_all add: one_session_def without_failed_exchange_def
      sample_session_def sample_messages_def sample_message_def countMessages_def
      slice_from_def relative_index_def failed_question_def failed_answer_def
      DEFAULT_CONFIG_def)

text \<open>
  Claim C6, at \<open>summarizeSession\<close>. The window of \<open>getMessagesWithMemory\<close> leaves
  the flagged messages out (\<open>getMessagesWithMemory_window\<close>,
  \<open>nonErrorMessages_not_flagged\<close>), as the claim says. \<open>summarizeSession\<close> does not:
  it counts every message from \<^verbatim>\<open>lastSummarizeIndex\<close> on
  (\<open>summarizeSession_counts_flagged\<close> below). \<open>one_session\<close> and
  \<open>without_failed_exchange\<close> have the default config and the same unflagged messages in
  the current session, nothing summarized; the first has the failed exchange, two flagged
  messages, as well. With it \<open>summarizeSession\<close> issues the compression request (1107
  characters against the threshold of 1000), without it not (7 characters): the flagged
  messages decide.
\<close>

theorem C6_flagged_messages_counted:
  "summarizeTriggered sample_env one_session
   \<and> \<not> summarizeTriggered sample_env without_failed_exchange
   \<and> nonErrorMessages one_session (sessionObj one_session 10)
     = nonErrorMessages without_failed_exchange (sessionObj without_failed_exchange 10)
   \<and> config one_session = config without_failed_exchange"
proof -
  have a: "summarizeTriggered sample_env one_session"
    by (simp add: summarizeTriggered_iff [OF sample_current(1)] sample_counts)
  have b: "\<not> summarizeTriggered sample_env without_failed_exchange"
    by (simp add: summarizeTriggered_iff [OF sample_current(2)] sample_counts)
  have c: "nonErrorMessages one_session (sessionObj one_session 10)
     = nonErrorMessages without_failed_exchange (sessionObj without_failed_exchange 10)"
    by (simp add: one_session_def without_failed_exchange_def one_session_def
      sample_session_def sample_messages_def sample_message_def nonErrorMessages_def)
  have d: "config one_session = config without_failed_exchange"
    by (simp add: without_failed_exchange_def)
  show ?thesis using a b c d by simp
qed

text \<open>
  With a current session \<open>r\<close>: the list of \<open>getMessagesWithMemory\<close> ends with the
  trailing window of the unflagged messages, so no message of the window is flagged; the
  compression request is issued exactly when the character count of \<open>pending\<close>, every
  message from \<^verbatim>\<open>lastSummarizeIndex\<close> on, exceeds \<^verbatim>\<open>compressMessageLengthThreshold\<close>;
  that count is the count of the unflagged messages of \<open>pending\<close> plus the count of
  the flagged ones; and it is the count compared with \<^verbatim>\<open>max_tokens\<close> and recorded
  with the request, whose messages are those of \<open>pending\<close> (its last
  \<^verbatim>\<open>historyMessageCount\<close> ones when the count exceeds \<^verbatim>\<open>max_tokens\<close>) between the
  memory prompt and the instruction.
\<close>

lemma summarizeSession_counts_flagged:
  assumes cur: "fst (currentSession st) = Some r"
  shows "let s = sessionObj st r;
             pending = slice_from (map (messageObj st) (messages s)) (lastSummarizeIndex s)
         in (\<exists>front. fst (getMessagesWithMemory env st)
                        = Inr (front @ historyWindow (config st) (nonErrorMessages st s)))
            \<and> list_all (\<lambda>m. \<not> truthy (isError m))
                 (historyWindow (config st) (nonErrorMessages st s))
            \<and> (summarizeTriggered env st
                 \<longleftrightarrow> countMessages pending > compressMessageLengthThreshold (config st))
            \<and> countMessages pending
                 = countMessages (filter (\<lambda>m. \<not> truthy (isError m)) pending)
                   + countMessages (filter (\<lambda>m. truthy (isError m)) pending)
            \<and> (\<exists>res. fst (summarizeSession env st) = Inr res
                 \<and> (case compressRequest res of
                       None \<Rightarrow> True
                     | Some rq \<Rightarrow>
                         compress_historyMsgLength rq = countMessages pending
                         \<and> (\<exists>memory instruction.
                               compress_messages rq =
                                 memory
                                 # (if num_gt (Finite (of_int (countMessages pending)))
                                         (max_tokens (modelConfig (config st)))
                                    then slice_from pending
                                           (max 0 (int (length pending)
                                                   - historyMessageCount (config st)))
                                    else pending)
                                 @ [instruction])))"
proof -
  let ?s = "sessionObj st r"
  let ?pending = "slice_from (map (messageObj st) (messages ?s)) (lastSummarizeIndex ?s)"
  have win: "\<exists>front. fst (getMessagesWithMemory env st)
                        = Inr (front @ historyWindow (config st) (nonErrorMessages st ?s))"
    using getMessagesWithMemory_window [OF cur, of env] by auto
  have clean: "list_all (\<lambda>m. \<not> truthy (isError m))
                 (historyWindow (config st) (nonErrorMessages st ?s))"
    using nonErrorMessages_not_flagged [of st ?s] historyWindow_subset [of "config st"]
    by (auto simp: list_all_iff)
  have trig: "summarizeTriggered env st
                 \<longleftrightarrow> countMessages ?pending > compressMessageLengthThreshold (config st)"
    by (rule summarizeTriggered_iff [OF cur])
  have split: "countMessages ?pending
                 = countMessages (filter (\<lambda>m. \<not> truthy (isError m)) ?pending)
                   + countMessages (filter (\<lambda>m. truthy (isError m)) ?pending)"
    by (rule countMessages_split)
  have req: "\<exists>res. fst (summarizeSession env st) = Inr res
                 \<and> (case compressRequest res of
                       None \<Rightarrow> True
                     | Some rq \<Rightarrow>
                         compress_historyMsgLength rq = countMessages ?pending
                         \<and> (\<exists>memory instruction.
                               compress_messages rq =
                                 memory
                                 # (if num_gt (Finite (of_int (countMessages ?pending)))
                                         (max_tokens (modelConfig (config st)))
                                    then slice_from ?pending
                                           (max 0 (int (length ?pending)
                                                   - historyMessageCount (config st)))
                                    else ?pending)
                                 @ [instruction]))"
    using summarizeSession_compressRequest [OF cur, of env]
    by (auto simp: Let_def)
  show ?thesis
    unfolding Let_def using win clean trig split req by blast
qed

lemma summarizeSession_one_session:
  "fst (summarizeSession sample_env one_session)
     = Inr sample_summarize"
proof -
  have cur: "currentSession one_session = (Some 10, one_session)"
    by (simp add: one_session_def currentSession_def session_at_def index_def)
  have mem: "getMemoryPrompt sample_env one_session =
     (Inr \<lparr>role = System, content = ''Summary so far: '', date = '''', streaming = None,
          isError = None, message_id = None\<rparr>, one_session)"
    by (simp add: getMemoryPrompt_def cur)
       (simp add: one_session_def sample_session_def createEmptySession_def
          sample_env_def)
  have obj: "sessionObj one_session 10 = sample_session [2, 3, 4, 5] 0"
    by (simp add: one_session_def)
  have mo: "messageObj one_session = sample_messages"
    by (simp add: one_session_def)
  have sm: "sample_messages 2 = sample_message User ''hi'' None"
    "sample_messages 3 = sample_message Assistant ''hello'' None"
    "sample_messages 4 = sample_message User failed_question (Some True)"
    "sample_messages 5 = sample_message Assistant failed_answer (Some True)"
    by (simp_all add: sample_messages_def)
  have cfg: "config one_session = DEFAULT_CONFIG"
    by (simp add: one_session_def)
  have cnt: "countMessages
      [sample_message User ''hi'' None, sample_message Assistant ''hello'' None,
       sample_message User failed_question (Some True), sample_message Assistant failed_answer (Some True)] = 1107"
    by (simp add: countMessages_def sample_message_def failed_question_def failed_answer_def)
  show ?thesis
    by (simp add: summarizeSession_def cur mem obj Let_def)
       (simp add: sample_session_def createEmptySession_def mo sm slice_from_def
          relative_index_def cnt cfg DEFAULT_CONFIG_def SUMMARIZE_MIN_LEN_def
          sample_summarize_def sample_compress_request_def sample_env_def)
qed

lemma compress_onMessage_frame [simp]:
  "sessions (compress_onMessage rq message done st) = sessions st"
  "currentSessionIndex (compress_onMessage rq message done st) = currentSessionIndex st"
  "messageObj (compress_onMessage rq message done st) = messageObj st"
  "config (compress_onMessage rq message done st) = config st"
  by (simp_all add: compress_onMessage_def Let_def)

lemma compress_onMessage_done:
  "sessionObj (compress_onMessage rq message True st) =
     (sessionObj st)
       (compress_session rq :=
          (sessionObj st (compress_session rq))
            \<lparr>memoryPrompt := message,
             lastSummarizeIndex := compress_lastSummarizeIndex rq\<rparr>)"
  by (simp add: compress_onMessage_def Let_def)

text \<open>
  Claim C3, at \<open>resetSession\<close>. In \<open>one_session\<close> the current session has four
  messages and \<^verbatim>\<open>lastSummarizeIndex = 0\<close>. \<open>summarizeSession\<close> issues the compression
  request, whose last delivery stores 4 in \<^verbatim>\<open>lastSummarizeIndex\<close>: still in range
  (\<open>compress_onMessage_in_range\<close> and \<open>onUserInput_in_range\<close> at the end show that for
  every request and state). Then \<open>resetSession\<close> empties \<^verbatim>\<open>messages\<close> and the memory
  prompt and leaves the index at 4, above the message count 0, which the range of the
  claim excludes.
\<close>

theorem C3_reset_leaves_stale_index:
  "summarizeIndexInRange (sessionObj one_session 10)
   \<and> fst (summarizeSession sample_env one_session)
       = Inr sample_summarize
   \<and> summarizeIndexInRange
       (sessionObj (compress_onMessage sample_compress_request ''recap'' True one_session) 10)
   \<and> fst (resetSession (compress_onMessage sample_compress_request ''recap'' True one_session))
       = None
   \<and> messages (sessionObj
        (snd (resetSession (compress_onMessage sample_compress_request ''recap'' True one_session)))
        10) = []
   \<and> lastSummarizeIndex (sessionObj
        (snd (resetSession (compress_onMessage sample_compress_request ''recap'' True one_session)))
        10) = 4
   \<and> \<not> summarizeIndexInRange (sessionObj
        (snd (resetSession (compress_onMessage sample_compress_request ''recap'' True one_session)))
        10)"
proof -
  let ?st1 = "compress_onMessage sample_compress_request ''recap'' True one_session"
  have a: "summarizeIndexInRange (sessionObj one_session 10)"
    by (simp add: summarizeIndexInRange_def one_session_def sample_session_def)
  have s1: "sessionObj ?st1 10
      = (sample_session [2, 3, 4, 5] 0)\<lparr>memoryPrompt := ''recap'', lastSummarizeIndex := 4\<rparr>"
    by (simp add: compress_onMessage_done sample_compress_request_def one_session_def
        one_session_def)
  have b: "summarizeIndexInRange (sessionObj ?st1 10)"
    by (simp add: s1 summarizeIndexInRange_def sample_session_def)
  have at: "session_at (sessions one_session) (currentSessionIndex one_session) = Some 10"
    by (simp add: one_session_def session_at_def index_def)
  have r: "resetSession ?st1 =
      (None, ?st1\<lparr>sessionObj := (sessionObj ?st1)
                (10 := (sessionObj ?st1 10)\<lparr>messages := [], memoryPrompt := ''''\<rparr>)\<rparr>)"
    by (simp add: resetSession_def updateCurrentSession_def at)
  have c: "messages (sessionObj (snd (resetSession ?st1)) 10) = []"
    "lastSummarizeIndex (sessionObj (snd (resetSession ?st1)) 10) = 4"
    by (simp_all add: r s1)
  have d: "\<not> summarizeIndexInRange (sessionObj (snd (resetSession ?st1)) 10)"
    by (simp add: summarizeIndexInRange_def c)
  show ?thesis
    using a b c d summarizeSession_one_session by (simp add: r)
qed

section \<open>The streaming handler\<close>

lemma updateCurrentSession_frame [simp]:
  "messageObj (snd (updateCurrentSession updater st)) = messageObj st"
  "sessions (snd (updateCurrentSession updater st)) = sessions st"
  "currentSessionIndex (snd (updateCurrentSession updater st)) = currentSessionIndex st"
  "config (snd (updateCurrentSession updater st)) = config st"
  by (simp_all add: updateCurrentSession_def split: option.splits)

lemma onNewMessage_frame [simp]:
  "messageObj (snd (onNewMessage clk st)) = messageObj st"
  by (simp add: onNewMessage_def)

lemma messageObj_onMessage_partial:
  "messageObj (snd (onMessage clk rq text False st))
     = (messageObj st)(req_botMessage rq := (messageObj st (req_botMessage rq))\<lparr>content := text\<rparr>)"
  by (simp add: onMessage_def Let_def)

lemma messageObj_onMessage_done:
  "messageObj (snd (onMessage clk rq text True st))
     = (messageObj st)
         (req_botMessage rq :=
            (messageObj st (req_botMessage rq))\<lparr>streaming := Some False, content := text\<rparr>)"
proof -
  let ?b = "req_botMessage rq"
  let ?st2 = "st\<lparr>messageObj := (messageObj st)
                 (?b := (messageObj st ?b)\<lparr>streaming := Some False, content := text\<rparr>)\<rparr>"
  have "messageObj (snd (onMessage clk rq text True st)) = messageObj (snd (onNewMessage clk ?st2))"
    by (simp add: onMessage_def Let_def split_beta split: option.splits prod.splits)
  then show ?thesis by simp
qed

text \<open>
  After the events \<^verbatim>\<open>"A"\<close>, \<^verbatim>\<open>"AB"\<close> and the last \<^verbatim>\<open>"ABC"\<close> the assistant message
  holds \<^verbatim>\<open>"ABC"\<close> and is no longer streaming, whatever the state at the first event.
\<close>

lemma stream_A_AB_ABC:
  "messageObj (stream env clk rq [Partial ''A'', Partial ''AB'', Done ''ABC''] st)
     = (messageObj st)
         (req_botMessage rq :=
            (messageObj st (req_botMessage rq))\<lparr>streaming := Some False, content := ''ABC''\<rparr>)"
  by (simp add: stream_def messageObj_onMessage_partial messageObj_onMessage_done)

lemma messageObj_onError:
  "messageObj (onError env rq statusCode st) =
     (let b = req_botMessage rq;
          u = req_userMessage rq;
          m1 = (messageObj st)
                 (b := (messageObj st b)
                    \<lparr>content :=
                       (if statusCode = Some 401 then Unauthorized env
                        else content (messageObj st b) @ [CHR 0x0A, CHR 0x0A] @ StoreError env),
                     streaming := Some False\<rparr>);
          m2 = m1(u := (m1 u)\<lparr>isError := Some True\<rparr>)
      in m2(b := (m2 b)\<lparr>isError := Some True\<rparr>))"
  by (simp add: onError_def Let_def)

lemma session_at_currentSession:
  "fst (currentSession st) = Some r \<Longrightarrow>
   session_at (sessions st) (currentSessionIndex (snd (currentSession st))) = Some r"
  by (auto simp: currentSession_def Let_def split: if_splits)

lemma new_message_frame [simp]:
  "sessions (snd (new_message m st)) = sessions st"
  "currentSessionIndex (snd (new_message m st)) = currentSessionIndex st"
  "sessionObj (snd (new_message m st)) = sessionObj st"
  "config (snd (new_message m st)) = config st"
  "fst (new_message m st) = nextRef st"
  "nextRef (snd (new_message m st)) = Suc (nextRef st)"
  "messageObj (snd (new_message m st)) = (messageObj st)(nextRef st := m)"
  by (simp_all add: new_message_def)

lemma currentSession_cong:
  "sessions st' = sessions st \<Longrightarrow> currentSessionIndex st' = currentSessionIndex st \<Longrightarrow>
   fst (currentSession st') = fst (currentSession st)
   \<and> currentSessionIndex (snd (currentSession st')) = currentSessionIndex (snd (currentSession st))"
  by (simp add: currentSession_def Let_def)

text \<open>
  What \<open>onUserInput\<close> leaves when it returns a request: the two new message objects,
  appended in this order to the current session, the assistant one an empty placeholder
  that is streaming.
\<close>

lemma onUserInput_request:
  assumes ok: "fst (onUserInput env clk input st0) = Inr rq"
  shows "req_userMessage rq = nextRef st0
       \<and> req_botMessage rq = Suc (nextRef st0)
       \<and> messageObj (snd (onUserInput env clk input st0)) (req_userMessage rq)
           = createMessage clk (\<lambda>m. m\<lparr>role := User, content := input\<rparr>)
       \<and> messageObj (snd (onUserInput env clk input st0)) (req_botMessage rq)
           = createMessage clk (\<lambda>m. m\<lparr>role := Assistant, streaming := Some True\<rparr>)
       \<and> (\<exists>r. fst (currentSession st0) = Some r
              \<and> session_at (sessions (snd (onUserInput env clk input st0)))
                   (currentSessionIndex (snd (onUserInput env clk input st0))) = Some r
              \<and> messages (sessionObj (snd (onUserInput env clk input st0)) r)
                   = messages (sessionObj st0 r) @ [req_userMessage rq, req_botMessage rq])"
proof -
  let ?um = "createMessage clk (\<lambda>m. m\<lparr>role := User, content := input\<rparr>)"
  let ?bm = "createMessage clk (\<lambda>m. m\<lparr>role := Assistant, streaming := Some True\<rparr>)"
  let ?st1 = "snd (new_message ?um st0)"
  let ?st2 = "snd (new_message ?bm ?st1)"
  let ?st3 = "snd (currentSession ?st2)"
  let ?u = "nextRef st0"
  let ?b = "Suc (nextRef st0)"
  have same: "fst (currentSession ?st2) = fst (currentSession st0)"
    using currentSession_cong [of ?st2 st0] by simp
  show ?thesis
  proof (cases "fst (currentSession st0)")
    case None
    then have "fst (getMessagesWithMemory env ?st2) = Inl TypeError"
      using same by (simp add: getMessagesWithMemory_def split_beta)
    then have "fst (onUserInput env clk input st0) = Inl TypeError"
      by (simp add: onUserInput_def split_beta Let_def split: prod.splits sum.splits)
    then show ?thesis using ok by simp
  next
    case (Some r)
    then have cur2: "fst (currentSession ?st2) = Some r" using same by simp
    obtain front where gm: "getMessagesWithMemory env ?st2 =
        (Inr (front @ historyWindow (config ?st2) (nonErrorMessages ?st2 (sessionObj ?st2 r))), ?st3)"
      using getMessagesWithMemory_window [OF cur2, of env] by blast
    have cur3: "currentSession ?st3 = (Some r, ?st3)"
      using cur2 currentSession_idem [of ?st2] by (metis prod.collapse)
    have at3: "session_at (sessions ?st3) (currentSessionIndex ?st3) = Some r"
      using session_at_currentSession [OF cur2] by simp
    let ?st5 = "?st3\<lparr>sessionObj := (sessionObj ?st3)
                 (r := (sessionObj ?st3 r)\<lparr>messages := messages (sessionObj ?st3 r) @ [?u, ?b]\<rparr>)\<rparr>"
    have upd: "updateCurrentSession (\<lambda>s. s\<lparr>messages := messages s @ [?u, ?b]\<rparr>) ?st3 = (None, ?st5)"
      using at3 by (simp add: updateCurrentSession_def)
    have res: "onUserInput env clk input st0 =
        (Inr \<lparr>req_messages =
                (front @ historyWindow (config ?st2) (nonErrorMessages ?st2 (sessionObj ?st2 r)))
                @ [messageObj ?st3 ?u],
              req_userMessage = ?u,
              req_botMessage = ?b,
              req_sessionIndex = currentSessionIndex ?st3,
              req_messageIndex = int (length (messages (sessionObj ?st3 r))) + 1,
              req_filterBot = (\<not> sendBotMessages (config ?st5)),
              req_modelConfig = modelConfig (config ?st5)\<rparr>, ?st5)"
      by (simp add: onUserInput_def split_beta Let_def gm cur3 upd)
    have rq: "req_userMessage rq = ?u" "req_botMessage rq = ?b"
      using ok res by auto
    have m5: "messageObj ?st5 = ((messageObj st0)(?u := ?um))(?b := ?bm)"
      by simp
    have s5: "sessions ?st5 = sessions ?st3" "currentSessionIndex ?st5 = currentSessionIndex ?st3"
      by simp_all
    have o5: "messages (sessionObj ?st5 r) = messages (sessionObj st0 r) @ [?u, ?b]"
      by simp
    show ?thesis
      unfolding rq res snd_conv
      using Some at3 o5 by (simp add: m5 s5)
  qed
qed

lemma onUserInput_one_session:
  "fst (onUserInput sample_env sample_clock ''ask'' one_session) = Inr sample_request"
proof -
  let ?um = "createMessage sample_clock (\<lambda>m. m\<lparr>role := User, content := ''ask''\<rparr>)"
  let ?bm = "createMessage sample_clock (\<lambda>m. m\<lparr>role := Assistant, streaming := Some True\<rparr>)"
  let ?st2 = "snd (new_message ?bm (snd (new_message ?um one_session)))"
  have n: "nextRef one_session = 20" by (simp add: one_session_def)
  have cur: "currentSession ?st2 = (Some 10, ?st2)"
    by (simp add: currentSession_def session_at_def index_def Let_def one_session_def)
  have obj: "sessionObj one_session 10 = sample_session [2, 3, 4, 5] 0"
    by (simp add: one_session_def)
  have mo: "messageObj one_session = sample_messages"
    by (simp add: one_session_def)
  have sm: "sample_messages 2 = sample_message User ''hi'' None"
    "sample_messages 3 = sample_message Assistant ''hello'' None"
    "sample_messages 4 = sample_message User failed_question (Some True)"
    "sample_messages 5 = sample_message Assistant failed_answer (Some True)"
    by (simp_all add: sample_messages_def)
  have ne: "nonErrorMessages ?st2 (sample_session [2, 3, 4, 5] 0)
      = [sample_message User ''hi'' None, sample_message Assistant ''hello'' None]"
    by (simp add: nonErrorMessages_def mo n sample_session_def sm)
       (simp add: sample_message_def)
  have cfg: "config one_session = DEFAULT_CONFIG"
    by (simp add: one_session_def)
  have win: "historyWindow DEFAULT_CONFIG
       [sample_message User ''hi'' None, sample_message Assistant ''hello'' None]
      = [sample_message User ''hi'' None, sample_message Assistant ''hello'' None]"
    by (simp add: historyWindow_def DEFAULT_CONFIG_def slice_from_def relative_index_def)
  have gm: "getMessagesWithMemory sample_env ?st2 =
      (Inr [sample_message User ''hi'' None, sample_message Assistant ''hello'' None], ?st2)"
    by (simp add: getMessagesWithMemory_def cur obj Let_def ne cfg win)
       (simp add: sample_session_def createEmptySession_def sample_env_def)
  have at: "session_at (sessions one_session) (currentSessionIndex one_session) = Some 10"
    by (simp add: session_at_def index_def one_session_def)
  have ci: "currentSessionIndex one_session = 0"
    by (simp add: one_session_def)
  have um: "?um = sample_message User ''ask'' None"
    by (simp add: createMessage_def sample_message_def sample_clock_def)
  show ?thesis
    by (simp add: onUserInput_def split_beta Let_def gm cur updateCurrentSession_def obj at)
       (simp add: sample_request_def mo n um cfg ci sample_session_def DEFAULT_CONFIG_def)
qed

text \<open>
  Claim C4. For every request \<open>rq\<close> and every state at the callback: a partial delivery
  changes nothing among the messages but the content of the assistant message, which
  becomes the delivered text (the text before is dropped, not extended); the last delivery
  sets that content to the final text and \<^verbatim>\<open>streaming\<close> to \<^verbatim>\<open>false\<close>, also when
  \<open>onNewMessage\<close> throws afterwards. So the events \<^verbatim>\<open>"A"\<close>, \<^verbatim>\<open>"AB"\<close>, then the last
  \<^verbatim>\<open>"ABC"\<close> leave the content \<^verbatim>\<open>"ABC"\<close> and \<^verbatim>\<open>streaming = false\<close>. When \<open>rq\<close> is the
  request that \<open>onUserInput\<close> returns, its assistant message is the empty streaming
  placeholder appended last to the current session, after the user message.
\<close>

theorem C4_stream_overwrites_content:
  "messageObj (snd (onMessage clk rq text False st))
     = (messageObj st)(req_botMessage rq := (messageObj st (req_botMessage rq))\<lparr>content := text\<rparr>)
   \<and> messageObj (snd (onMessage clk rq text True st))
     = (messageObj st)
         (req_botMessage rq :=
            (messageObj st (req_botMessage rq))\<lparr>streaming := Some False, content := text\<rparr>)
   \<and> content (messageObj (stream env clk rq [Partial ''A'', Partial ''AB'', Done ''ABC''] st)
        (req_botMessage rq)) = ''ABC''
   \<and> streaming (messageObj (stream env clk rq [Partial ''A'', Partial ''AB'', Done ''ABC''] st)
        (req_botMessage rq)) = Some False
   \<and> (fst (onUserInput env clk input st0) = Inr rq \<longrightarrow>
        messageObj (snd (onUserInput env clk input st0)) (req_botMessage rq)
          = createMessage clk (\<lambda>m. m\<lparr>role := Assistant, streaming := Some True\<rparr>)
        \<and> (\<exists>r. session_at (sessions (snd (onUserInput env clk input st0)))
                   (currentSessionIndex (snd (onUserInput env clk input st0))) = Some r
               \<and> messages (sessionObj (snd (onUserInput env clk input st0)) r)
                    = messages (sessionObj st0 r) @ [req_userMessage rq, req_botMessage rq]))"
proof -
  have started: "fst (onUserInput env clk input st0) = Inr rq \<Longrightarrow>
        messageObj (snd (onUserInput env clk input st0)) (req_botMessage rq)
          = createMessage clk (\<lambda>m. m\<lparr>role := Assistant, streaming := Some True\<rparr>)
        \<and> (\<exists>r. session_at (sessions (snd (onUserInput env clk input st0)))
                   (currentSessionIndex (snd (onUserInput env clk input st0))) = Some r
               \<and> messages (sessionObj (snd (onUserInput env clk input st0)) r)
                    = messages (sessionObj st0 r) @ [req_userMessage rq, req_botMessage rq])"
    using onUserInput_request [of env clk input st0 rq] by blast
  show ?thesis
    using started
    by (simp add: messageObj_onMessage_partial messageObj_onMessage_done stream_A_AB_ABC)
qed

theorem C4_stream_overwrites_content_witness:
  "fst (onUserInput sample_env sample_clock ''ask'' one_session) = Inr sample_request
   \<and> messageObj (snd (onUserInput sample_env sample_clock ''ask'' one_session)) 21
       = \<lparr>role = Assistant, content = '''', date = ''14/11/2023'', streaming = Some True,
          isError = None, message_id = Some 1700000000000\<rparr>
   \<and> content (messageObj
        (stream sample_env sample_clock sample_request [Partial ''A'', Partial ''AB'', Done ''ABC'']
           (snd (onUserInput sample_env sample_clock ''ask'' one_session))) 21) = ''ABC''
   \<and> streaming (messageObj
        (stream sample_env sample_clock sample_request [Partial ''A'', Partial ''AB'', Done ''ABC'']
           (snd (onUserInput sample_env sample_clock ''ask'' one_session))) 21) = Some False"
proof -
  have b: "req_botMessage sample_request = 21" by (simp add: sample_request_def)
  show ?thesis
    using C4_stream_overwrites_content
      [of sample_clock sample_request _ "snd (onUserInput sample_env sample_clock ''ask'' one_session)"
          sample_env "''ask''" one_session]
      onUserInput_one_session
    by (simp add: b createMessage_def sample_clock_def)
qed

text \<open>
  Claim C5. For every request and every state at the error: with status 401 the content
  of the assistant message becomes the unauthorized notice; with any other status, or
  none, the error text is appended to the content, after two line feeds; either way the
  assistant message stops streaming and both the assistant and the user message are
  flagged \<^verbatim>\<open>isError\<close>. When the request is the one \<open>onUserInput\<close> returns, the two
  are distinct objects, the user message with the text typed and the assistant message,
  the last two of the current session, and the error leaves the user's text as it is.
\<close>

theorem C5_error_flags_exchange:
  "(statusCode = Some 401 \<longrightarrow>
      content (messageObj (onError env rq statusCode st) (req_botMessage rq)) = Unauthorized env)
   \<and> (statusCode \<noteq> Some 401 \<longrightarrow>
      content (messageObj (onError env rq statusCode st) (req_botMessage rq))
        = content (messageObj st (req_botMessage rq)) @ [CHR 0x0A, CHR 0x0A] @ StoreError env)
   \<and> streaming (messageObj (onError env rq statusCode st) (req_botMessage rq)) = Some False
   \<and> isError (messageObj (onError env rq statusCode st) (req_botMessage rq)) = Some True
   \<and> isError (messageObj (onError env rq statusCode st) (req_userMessage rq)) = Some True
   \<and> (fst (onUserInput env clk input st0) = Inr rq \<longrightarrow>
        req_userMessage rq \<noteq> req_botMessage rq
        \<and> role (messageObj (snd (onUserInput env clk input st0)) (req_userMessage rq)) = User
        \<and> content (messageObj (snd (onUserInput env clk input st0)) (req_userMessage rq)) = input
        \<and> role (messageObj (snd (onUserInput env clk input st0)) (req_botMessage rq)) = Assistant
        \<and> content (messageObj (onError env rq statusCode st) (req_userMessage rq))
            = content (messageObj st (req_userMessage rq))
        \<and> (\<exists>r. session_at (sessions (snd (onUserInput env clk input st0)))
                   (currentSessionIndex (snd (onUserInput env clk input st0))) = Some r
               \<and> messages (sessionObj (snd (onUserInput env clk input st0)) r)
                    = messages (sessionObj st0 r) @ [req_userMessage rq, req_botMessage rq]))"
proof -
  have started: "fst (onUserInput env clk input st0) = Inr rq \<Longrightarrow>
        req_userMessage rq \<noteq> req_botMessage rq
        \<and> role (messageObj (snd (onUserInput env clk input st0)) (req_userMessage rq)) = User
        \<and> content (messageObj (snd (onUserInput env clk input st0)) (req_userMessage rq)) = input
        \<and> role (messageObj (snd (onUserInput env clk input st0)) (req_botMessage rq)) = Assistant
        \<and> (\<exists>r. session_at (sessions (snd (onUserInput env clk input st0)))
                   (currentSessionIndex (snd (onUserInput env clk input st0))) = Some r
               \<and> messages (sessionObj (snd (onUserInput env clk input st0)) r)
                    = messages (sessionObj st0 r) @ [req_userMessage rq, req_botMessage rq])"
    using onUserInput_request [of env clk input st0 rq]
    by (auto simp: createMessage_def)
  have other: "req_userMessage rq \<noteq> req_botMessage rq \<Longrightarrow>
        content (messageObj (onError env rq statusCode st) (req_userMessage rq))
            = content (messageObj st (req_userMessage rq))"
    by (simp add: messageObj_onError Let_def)
  show ?thesis
    using started other
    by (simp add: messageObj_onError Let_def)
qed

theorem C5_error_flags_exchange_witness:
  "fst (onUserInput sample_env sample_clock ''ask'' one_session) = Inr sample_request
   \<and> content (messageObj
        (onError sample_env sample_request (Some 401)
           (snd (onUserInput sample_env sample_clock ''ask'' one_session))) 21)
       = ''Unauthorized access''
   \<and> content (messageObj
        (onError sample_env sample_request (Some 500)
           (snd (onMessage sample_clock sample_request ''par'' False
              (snd (onUserInput sample_env sample_clock ''ask'' one_session))))) 21)
       = ''par'' @ [CHR 0x0A, CHR 0x0A] @ ''Something went wrong''
   \<and> isError (messageObj
        (onError sample_env sample_request None
           (snd (onUserInput sample_env sample_clock ''ask'' one_session))) 20) = Some True
   \<and> isError (messageObj
        (onError sample_env sample_request None
           (snd (onUserInput sample_env sample_clock ''ask'' one_session))) 21) = Some True
   \<and> streaming (messageObj
        (onError sample_env sample_request None
           (snd (onUserInput sample_env sample_clock ''ask'' one_session))) 21) = Some False"
proof -
  let ?st1 = "snd (onUserInput sample_env sample_clock ''ask'' one_session)"
  have r: "req_botMessage sample_request = 21" "req_userMessage sample_request = 20"
    by (simp_all add: sample_request_def)
  have e: "Unauthorized sample_env = ''Unauthorized access''"
    "StoreError sample_env = ''Something went wrong''"
    by (simp_all add: sample_env_def)
  have p: "content (messageObj (snd (onMessage sample_clock sample_request ''par'' False ?st1)) 21)
      = ''par''"
    by (simp add: messageObj_onMessage_partial r)
  have a: "content (messageObj (onError sample_env sample_request (Some 401) ?st1) 21)
       = ''Unauthorized access''"
    using C5_error_flags_exchange [of "Some 401" sample_env sample_request ?st1
        sample_clock "''ask''" one_session]
    by (simp add: r e)
  have b: "content (messageObj
        (onError sample_env sample_request (Some 500)
           (snd (onMessage sample_clock sample_request ''par'' False ?st1))) 21)
       = ''par'' @ [CHR 0x0A, CHR 0x0A] @ ''Something went wrong''"
    using C5_error_flags_exchange [of "Some 500" sample_env sample_request
        "snd (onMessage sample_clock sample_request ''par'' False ?st1)"
        sample_clock "''ask''" one_session] p
    by (simp add: r e)
  have c: "isError (messageObj (onError sample_env sample_request None ?st1) 20) = Some True
    \<and> isError (messageObj (onError sample_env sample_request None ?st1) 21) = Some True
    \<and> streaming (messageObj (onError sample_env sample_request None ?st1) 21) = Some False"
    using C5_error_flags_exchange [of None sample_env sample_request ?st1
        sample_clock "''ask''" one_session]
    by (simp add: r)
  show ?thesis
    using a b c onUserInput_one_session by simp
qed

section \<open>updateMessage\<close>

lemma array_at_cases:
  "array_at xs i =
     (if 0 \<le> i \<and> i < int (length xs) then Some (xs ! nat i)
      else if - int (length xs) \<le> i \<and> i < 0 then Some (xs ! nat (int (length xs) + i))
      else None)"
  by (auto simp: array_at_def Let_def)

lemma updateMessage_target_no_session:
  "si < - int (length (sessions st)) \<or> int (length (sessions st)) \<le> si \<Longrightarrow>
   updateMessage_target si mi st = None"
  by (auto simp: updateMessage_target_def array_at_cases)

lemma updateMessage_target_session:
  "array_at (sessions st) si = Some (Some r) \<Longrightarrow>
   updateMessage_target si mi st = array_at (messages (sessionObj st r)) mi"
  by (simp add: updateMessage_target_def)

text \<open>
  Claim C10. \<open>updateMessage\<close> has no failing step of its own: it looks both indices up
  with \<^verbatim>\<open>at\<close> and \<^verbatim>\<open>?.\<close>, so for every pair of indices it throws exactly when the
  updater does. It changes neither the sessions nor the session objects, and the messages
  only through the updater. The updater receives no message when the session index is
  outside \<open>[-length, length)\<close>, when the slot there is empty, or when the message index
  is outside that range for the session's messages; an index in \<open>[0, length)\<close> selects
  from the front and one in \<open>[-length, 0)\<close> from the end. When the updater receives no
  message and returns with the messages as they were, the state is unchanged.
\<close>

theorem C10_updateMessage_boundaries:
  "fst (updateMessage si mi updater st)
       = fst (updater (updateMessage_target si mi st) (messageObj st))
   \<and> messageObj (snd (updateMessage si mi updater st))
       = snd (updater (updateMessage_target si mi st) (messageObj st))
   \<and> sessions (snd (updateMessage si mi updater st)) = sessions st
   \<and> sessionObj (snd (updateMessage si mi updater st)) = sessionObj st
   \<and> currentSessionIndex (snd (updateMessage si mi updater st)) = currentSessionIndex st
   \<and> (si < - int (length (sessions st)) \<or> int (length (sessions st)) \<le> si
        \<longrightarrow> updateMessage_target si mi st = None)
   \<and> (array_at (sessions st) si = Some None \<longrightarrow> updateMessage_target si mi st = None)
   \<and> (array_at (sessions st) si = Some (Some r)
        \<and> (mi < - int (length (messages (sessionObj st r)))
            \<or> int (length (messages (sessionObj st r))) \<le> mi)
        \<longrightarrow> updateMessage_target si mi st = None)
   \<and> (array_at (sessions st) si = Some (Some r)
        \<and> 0 \<le> mi \<and> mi < int (length (messages (sessionObj st r)))
        \<longrightarrow> updateMessage_target si mi st = Some (messages (sessionObj st r) ! nat mi))
   \<and> (array_at (sessions st) si = Some (Some r)
        \<and> - int (length (messages (sessionObj st r))) \<le> mi \<and> mi < 0
        \<longrightarrow> updateMessage_target si mi st
            = Some (messages (sessionObj st r)
                      ! nat (int (length (messages (sessionObj st r))) + mi)))
   \<and> (0 \<le> si \<and> si < int (length (sessions st))
        \<longrightarrow> array_at (sessions st) si = Some (sessions st ! nat si))
   \<and> (- int (length (sessions st)) \<le> si \<and> si < 0
        \<longrightarrow> array_at (sessions st) si
            = Some (sessions st ! nat (int (length (sessions st)) + si)))
   \<and> (updateMessage_target si mi st = None
        \<and> updater None (messageObj st) = (None, messageObj st)
        \<longrightarrow> updateMessage si mi updater st = (None, st))"
proof -
  have frame: "fst (updateMessage si mi updater st)
       = fst (updater (updateMessage_target si mi st) (messageObj st))"
    "messageObj (snd (updateMessage si mi updater st))
       = snd (updater (updateMessage_target si mi st) (messageObj st))"
    "sessions (snd (updateMessage si mi updater st)) = sessions st"
    "sessionObj (snd (updateMessage si mi updater st)) = sessionObj st"
    "currentSessionIndex (snd (updateMessage si mi updater st)) = currentSessionIndex st"
    by (simp_all add: updateMessage_def split_beta)
  have none1: "si < - int (length (sessions st)) \<or> int (length (sessions st)) \<le> si
        \<Longrightarrow> updateMessage_target si mi st = None"
    by (rule updateMessage_target_no_session)
  have none2: "array_at (sessions st) si = Some None \<Longrightarrow> updateMessage_target si mi st = None"
    by (simp add: updateMessage_target_def)
  have msg: "array_at (sessions st) si = Some (Some r) \<Longrightarrow>
      updateMessage_target si mi st =
        (if 0 \<le> mi \<and> mi < int (length (messages (sessionObj st r)))
         then Some (messages (sessionObj st r) ! nat mi)
         else if - int (length (messages (sessionObj st r))) \<le> mi \<and> mi < 0
         then Some (messages (sessionObj st r)
                      ! nat (int (length (messages (sessionObj st r))) + mi))
         else None)"
    by (simp add: updateMessage_target_session array_at_cases)
  have sess: "array_at (sessions st) si =
        (if 0 \<le> si \<and> si < int (length (sessions st)) then Some (sessions st ! nat si)
         else if - int (length (sessions st)) \<le> si \<and> si < 0
         then Some (sessions st ! nat (int (length (sessions st)) + si))
         else None)"
    by (rule array_at_cases)
  have same: "updateMessage_target si mi st = None \<Longrightarrow>
      updater None (messageObj st) = (None, messageObj st) \<Longrightarrow>
      updateMessage si mi updater st = (None, st)"
    by (simp add: updateMessage_def)
  have m1: "array_at (sessions st) si = Some (Some r)
        \<and> (mi < - int (length (messages (sessionObj st r)))
            \<or> int (length (messages (sessionObj st r))) \<le> mi)
        \<longrightarrow> updateMessage_target si mi st = None"
    using msg by auto
  have m2: "array_at (sessions st) si = Some (Some r)
        \<and> 0 \<le> mi \<and> mi < int (length (messages (sessionObj st r)))
        \<longrightarrow> updateMessage_target si mi st = Some (messages (sessionObj st r) ! nat mi)"
    using msg by auto
  have m3: "array_at (sessions st) si = Some (Some r)
        \<and> - int (length (messages (sessionObj st r))) \<le> mi \<and> mi < 0
        \<longrightarrow> updateMessage_target si mi st
            = Some (messages (sessionObj st r)
                      ! nat (int (length (messages (sessionObj st r))) + mi))"
    using msg by auto
  have s1: "0 \<le> si \<and> si < int (length (sessions st))
        \<longrightarrow> array_at (sessions st) si = Some (sessions st ! nat si)"
    using sess by auto
  have s2: "- int (length (sessions st)) \<le> si \<and> si < 0
        \<longrightarrow> array_at (sessions st) si
            = Some (sessions st ! nat (int (length (sessions st)) + si))"
    using sess by auto
  show ?thesis
    using frame none1 none2 m1 m2 m3 s1 s2 same by blast
qed

theorem C10_updateMessage_boundaries_witness:
  "updateMessage_target 1 0 one_session = None
   \<and> updateMessage_target 0 4 one_session = None
   \<and> updateMessage_target 0 (-5) one_session = None
   \<and> updateMessage 1 0 edit_if_present one_session = (None, one_session)
   \<and> fst (updateMessage 1 0 edit_unguarded one_session) = Some TypeError
   \<and> messageObj (snd (updateMessage 1 0 edit_unguarded one_session)) = messageObj one_session
   \<and> updateMessage_target 0 3 one_session = Some 5
   \<and> updateMessage_target (-1) (-1) one_session = Some 5
   \<and> fst (updateMessage (-1) (-4) edit_unguarded one_session) = None
   \<and> content (messageObj (snd (updateMessage (-1) (-4) edit_unguarded one_session)) 2)
       = ''edited''"
proof -
  have len: "int (length (sessions one_session)) = 1"
    "int (length (messages (sessionObj one_session 10))) = 4"
    "messages (sessionObj one_session 10) = [2, 3, 4, 5]"
    by (simp_all add: one_session_def sample_session_def)
  have s0: "array_at (sessions one_session) 0 = Some (Some 10)"
    "array_at (sessions one_session) (-1) = Some (Some 10)"
    by (simp_all add: one_session_def array_at_def)
  have a: "updateMessage_target 1 0 one_session = None"
    using C10_updateMessage_boundaries [of 1 0 edit_if_present one_session 10] len by simp
  have b: "updateMessage_target 0 4 one_session = None"
    using C10_updateMessage_boundaries [of 0 4 edit_if_present one_session 10] len s0 by simp
  have c: "updateMessage_target 0 (-5) one_session = None"
    using C10_updateMessage_boundaries [of 0 "-5" edit_if_present one_session 10] len s0 by simp
  have d: "updateMessage 1 0 edit_if_present one_session = (None, one_session)"
    using C10_updateMessage_boundaries [of 1 0 edit_if_present one_session 10] a
    by (simp add: edit_if_present_def)
  have d': "fst (updateMessage 1 0 edit_unguarded one_session) = Some TypeError
      \<and> messageObj (snd (updateMessage 1 0 edit_unguarded one_session)) = messageObj one_session"
    using C10_updateMessage_boundaries [of 1 0 edit_unguarded one_session 10] a
    by (simp add: edit_unguarded_def)
  have e: "updateMessage_target 0 3 one_session = Some 5"
    using C10_updateMessage_boundaries [of 0 3 edit_if_present one_session 10] len s0 by simp
  have f: "updateMessage_target (-1) (-1) one_session = Some 5"
    using C10_updateMessage_boundaries [of "-1" "-1" edit_if_present one_session 10] len s0 by simp
  have g0: "updateMessage_target (-1) (-4) one_session = Some 2"
    using C10_updateMessage_boundaries [of "-1" "-4" edit_unguarded one_session 10] len s0 by simp
  have g: "fst (updateMessage (-1) (-4) edit_unguarded one_session) = None
      \<and> content (messageObj (snd (updateMessage (-1) (-4) edit_unguarded one_session)) 2)
          = ''edited''"
    using C10_updateMessage_boundaries [of "-1" "-4" edit_unguarded one_session 10] g0
    by (simp add: edit_unguarded_def)
  show ?thesis
    using a b c d d' e f g by simp
qed

section \<open>Further properties of the store\<close>

text \<open>
  \<^verbatim>\<open>lastSummarizeIndex\<close> stays in range where the transcript is not reset: the request
  of \<open>summarizeSession\<close> records the message count of the moment, the last delivery
  stores it, and \<open>onUserInput\<close> only appends.
\<close>

lemma compress_onMessage_in_range:
  assumes "0 \<le> compress_lastSummarizeIndex rq"
    and "compress_lastSummarizeIndex rq \<le> int (length (messages (sessionObj st (compress_session rq))))"
  shows "summarizeIndexInRange (sessionObj (compress_onMessage rq message True st) (compress_session rq))"
  using assms by (simp add: compress_onMessage_done summarizeIndexInRange_def)

lemma summarizeSession_records_length:
  assumes cur: "fst (currentSession st) = Some r"
    and res: "fst (summarizeSession env st) = Inr res"
    and rq: "compressRequest res = Some rq"
  shows "compress_session rq = r
       \<and> compress_lastSummarizeIndex rq = int (length (messages (sessionObj st r)))"
proof -
  obtain res' where a: "summarizeSession env st = (Inr res', snd (currentSession st))"
    and b: "compressRequest res' =
          (let s = sessionObj st r;
               pending = slice_from (map (messageObj st) (messages s)) (lastSummarizeIndex s);
               sent =
                 (if num_gt (Finite (of_int (countMessages pending)))
                       (max_tokens (modelConfig (config st)))
                  then slice_from pending
                         (max 0 (int (length pending) - historyMessageCount (config st)))
                  else pending)
           in if countMessages pending > compressMessageLengthThreshold (config st) then
                Some \<lparr>compress_messages =
                        \<lparr>role = System, content = PromptHistory env (memoryPrompt s),
                         date = '''', streaming = None, isError = None, message_id = None\<rparr>
                        # sent
                        @ [\<lparr>role = System, content = PromptSummarize env, date = '''',
                            streaming = None, isError = None, message_id = None\<rparr>],
                      compress_historyMsgLength = countMessages pending,
                      compress_session = r,
                      compress_lastSummarizeIndex = int (length (messages s))\<rparr>
              else None)"
    using summarizeSession_compressRequest [OF cur, of env] by blast
  have "res' = res" using a res by simp
  then show ?thesis
    using b rq by (auto simp: Let_def split: if_splits)
qed

lemma onUserInput_in_range:
  assumes ok: "fst (onUserInput env clk input st0) = Inr rq"
    and inv: "summarizeIndexInRange (sessionObj st0 r)"
  shows "summarizeIndexInRange (sessionObj (snd (onUserInput env clk input st0)) r)"
proof -
  let ?um = "createMessage clk (\<lambda>m. m\<lparr>role := User, content := input\<rparr>)"
  let ?bm = "createMessage clk (\<lambda>m. m\<lparr>role := Assistant, streaming := Some True\<rparr>)"
  let ?st2 = "snd (new_message ?bm (snd (new_message ?um st0)))"
  let ?st3 = "snd (currentSession ?st2)"
  have same: "fst (currentSession ?st2) = fst (currentSession st0)"
    using currentSession_cong [of ?st2 st0] by simp
  obtain c where c: "fst (currentSession st0) = Some c"
    using onUserInput_request [OF ok] by blast
  then have cur2: "fst (currentSession ?st2) = Some c" using same by simp
  obtain front where gm: "getMessagesWithMemory env ?st2 =
      (Inr (front @ historyWindow (config ?st2) (nonErrorMessages ?st2 (sessionObj ?st2 c))), ?st3)"
    using getMessagesWithMemory_window [OF cur2, of env] by blast
  have cur3: "currentSession ?st3 = (Some c, ?st3)"
    using cur2 currentSession_idem [of ?st2] by (metis prod.collapse)
  have at3: "session_at (sessions ?st3) (currentSessionIndex ?st3) = Some c"
    using session_at_currentSession [OF cur2] by simp
  have obj: "sessionObj (snd (onUserInput env clk input st0)) =
      (sessionObj st0)
        (c := (sessionObj st0 c)
           \<lparr>messages := messages (sessionObj st0 c) @ [nextRef st0, Suc (nextRef st0)]\<rparr>)"
    using at3 by (simp add: onUserInput_def split_beta Let_def gm cur3 updateCurrentSession_def)
  show ?thesis
    using inv by (auto simp: obj summarizeIndexInRange_def)
qed

text \<open>
  When the confirmation on a mobile screen is declined nothing is removed, but the toast
  is shown all the same; its undo then inserts the current session a second time.
\<close>

lemma declined_delete_then_undo:
  "sessions (fst (deleteSession sample_env sample_clock True False three_sessions))
     = [Some 10, Some 11, Some 12]
   \<and> sessions (Revert_onClick (snd (deleteSession sample_env sample_clock True False three_sessions))
                 (fst (deleteSession sample_env sample_clock True False three_sessions)))
     = [Some 10, Some 11, Some 11, Some 12]"
proof -
  have c: "currentSession three_sessions = (Some 11, three_sessions)"
    by (simp add: currentSession_def three_sessions_def session_at_def index_def)
  have d: "deleteSession sample_env sample_clock True False three_sessions =
      (three_sessions, \<lparr>revert_index = 1, revert_deletedSession = Some 11,
                        revert_isLastSession = False\<rparr>)"
    by (simp add: deleteSession_def c) (simp add: three_sessions_def)
  show ?thesis
    by (simp add: d Revert_onClick_def)
       (simp add: three_sessions_def slice_def slice_from_def relative_index_def)
qed

end
